theory Spec2Isabelle
  imports Complex_Main "HOL-Library.AList"
begin

chapter \<open>The pixel cat-food factory: page logic and sound subsystem\<close>

text \<open>
  A shallow embedding of the page controllers of \<^verbatim>\<open>js/app.js\<close>, of
  \<^verbatim>\<open>js/audio/audio-settings.js\<close> and of the sound mapping system, the sound
  factory and the audio system.

  Conventions of the embedding.
  \<^item> A JavaScript string is a \<open>string\<close>; text outside ASCII is kept as its UTF-8 bytes.
    The strings whose length matters (decimal numerals) are ASCII.
  \<^item> In the page logic of \<^verbatim>\<open>js/app.js\<close> a JavaScript number is a \<open>nat\<close> or an \<open>int\<close>
    where the source only has integers (a range input's value, \<^verbatim>\<open>Date.now()\<close>) and a
    \<open>rat\<close> elsewhere; the values there are integers between 0 and 100 and their
    hundredths. In the sound subsystem a number is a \<open>number\<close>: \<^verbatim>\<open>NaN\<close>, an infinity, or
    a finite value, and a product is rounded to the nearest double. A number that a
    configuration only hands on to the Web Audio API is kept as the decimal it is written
    as.
  \<^item> An object that is mutated is a record passed in and returned; a \<^verbatim>\<open>throw\<close> is the
    \<open>Inl\<close> of a sum; \<^verbatim>\<open>null\<close> and \<^verbatim>\<open>undefined\<close> are \<open>None\<close>.
  \<^item> An \<^verbatim>\<open>async\<close> function is cut at each \<^verbatim>\<open>await\<close> that the claims depend on: the part
    before the \<^verbatim>\<open>await\<close> is one function, the continuation another.
\<close>

section \<open>Strings and numbers of the host language\<close>

subsection \<open>Strings\<close>

definition digits :: string where
  "digits = ''0123456789''"

definition is_digit :: "char \<Rightarrow> bool" where
  "is_digit c = (c \<in> set digits)"

definition digit_char :: "nat \<Rightarrow> char" where
  "digit_char d = digits ! (d mod 10)"

text \<open>\<^verbatim>\<open>Number.prototype.toString()\<close> on a non-negative integer: its decimal numeral.\<close>

fun toString_nat :: "nat \<Rightarrow> string" where
  "toString_nat n =
     (if n < 10 then [digit_char n] else toString_nat (n div 10) @ [digit_char (n mod 10)])"

declare toString_nat.simps [simp del]

text \<open>On an integer: a minus sign in front of the numeral of a negative one.\<close>

definition toString_int :: "int \<Rightarrow> string" where
  "toString_int i = (if i < 0 then CHR ''-'' # toString_nat (nat (- i)) else toString_nat (nat i))"

text \<open>
  \<^verbatim>\<open>String.prototype.slice(start)\<close> with one argument: a negative \<open>start\<close> counts from
  the end, and the start is clamped into the string.
\<close>

definition slice_from :: "int \<Rightarrow> string \<Rightarrow> string" where
  "slice_from start s =
     (let len = int (length s);
          from = (if start < 0 then max (len + start) 0 else min start len)
      in drop (nat from) s)"

text \<open>\<^verbatim>\<open>String.prototype.includes\<close>: the argument occurs as a contiguous substring.\<close>

fun includes_str :: "string \<Rightarrow> string \<Rightarrow> bool" where
  "includes_str [] sub = (sub = [])"
| "includes_str (c # cs) sub = (take (length sub) (c # cs) = sub \<or> includes_str cs sub)"

text \<open>
  \<^verbatim>\<open>s.replace('-', '_')\<close> with a string pattern: only the first occurrence is replaced.
\<close>

fun replace_first :: "char \<Rightarrow> char \<Rightarrow> string \<Rightarrow> string" where
  "replace_first a b [] = []"
| "replace_first a b (c # cs) = (if c = a then b # cs else c # replace_first a b cs)"

subsection \<open>Numbers\<close>

text \<open>
  A value of type Number: \<^verbatim>\<open>NaN\<close>, one of the infinities, or a finite value. The two
  zeros are one value here; nothing in the code distinguishes them. Where a function of
  the source is given a value of another type and uses it as a number (\<^verbatim>\<open>Math.min\<close>,
  \<^verbatim>\<open>*\<close>, \<^verbatim>\<open>>\<close>), the \<open>number\<close> is what the language converts the value to:
  \<^verbatim>\<open>NaN\<close> for \<^verbatim>\<open>undefined\<close> and for a string that is no numeral.
\<close>

datatype number = NaN | NegInfinity | Finite rat | PosInfinity

text \<open>
  Rounding to the nearest double, ties to even: \<open>bit_length n\<close> is the number of binary
  digits of a positive \<open>n\<close>, \<open>floor_log2 a\<close> is the binary exponent of a positive \<open>a\<close>, the spacing of the doubles around \<open>a\<close> is \<open>2\<close> to the power of the
  exponent minus 52, with the exponent not below -1022 (subnormal numbers), and a result of
  \<open>2\<close> to the power 1024 or more is an infinity.
\<close>

definition pow2 :: "int \<Rightarrow> rat" where
  "pow2 k = (if k \<ge> 0 then 2 ^ nat k else 1 / 2 ^ nat (- k))"

function bit_length :: "int \<Rightarrow> nat" where
  "bit_length n = (if n \<le> 0 then 0 else Suc (bit_length (n div 2)))"
  by auto

termination bit_length
  by (relation "measure nat") auto

declare bit_length.simps [simp del]

definition floor_log2 :: "rat \<Rightarrow> int" where
  "floor_log2 a =
     (if a \<ge> 1 then int (bit_length \<lfloor>a\<rfloor>) - 1
      else - int (bit_length (\<lceil>1 / a\<rceil> - 1)))"

definition round_half_even :: "rat \<Rightarrow> int" where
  "round_half_even r =
     (let f = \<lfloor>r\<rfloor>; d = r - of_int f
      in if d < 1 / 2 then f else if d > 1 / 2 then f + 1 else if even f then f else f + 1)"

definition round_double :: "rat \<Rightarrow> number" where
  "round_double x =
     (if x = 0 then Finite 0
      else
        let a = \<bar>x\<bar>;
            e = max (floor_log2 a) (- 1022);
            ulp = pow2 (e - 52);
            n = round_half_even (a / ulp)
        in if e > 1023 \<or> (e = 1023 \<and> n \<ge> 2 ^ 53)
           then (if x < 0 then NegInfinity else PosInfinity)
           else Finite ((if x < 0 then - 1 else 1) * of_int n * ulp))"

text \<open>A decimal literal of the source, such as \<^verbatim>\<open>0.8\<close>, is the double nearest to it.\<close>

definition literal :: "rat \<Rightarrow> number" where
  "literal r = round_double r"

text \<open>
  \<^verbatim>\<open>x < y\<close> and \<^verbatim>\<open>x <= y\<close>: false when either side is \<^verbatim>\<open>NaN\<close>. (\<^verbatim>\<open>x > y\<close> is
  \<^verbatim>\<open>y < x\<close>.)
\<close>

fun number_less :: "number \<Rightarrow> number \<Rightarrow> bool" where
  "number_less NaN y = False"
| "number_less x NaN = False"
| "number_less (Finite a) (Finite b) = (a < b)"
| "number_less NegInfinity NegInfinity = False"
| "number_less NegInfinity y = True"
| "number_less x NegInfinity = False"
| "number_less PosInfinity y = False"
| "number_less x PosInfinity = True"

definition number_le :: "number \<Rightarrow> number \<Rightarrow> bool" where
  "number_le x y = (number_less x y \<or> (x = y \<and> x \<noteq> NaN))"

text \<open>\<^verbatim>\<open>!x\<close> on a number: true for zero and for \<^verbatim>\<open>NaN\<close>.\<close>

definition falsy :: "number \<Rightarrow> bool" where
  "falsy x = (x = NaN \<or> x = Finite 0)"

text \<open>\<^verbatim>\<open>Math.min\<close> and \<^verbatim>\<open>Math.max\<close> of two numbers: \<^verbatim>\<open>NaN\<close> if either is.\<close>

definition Math_min :: "number \<Rightarrow> number \<Rightarrow> number" where
  "Math_min x y = (if x = NaN \<or> y = NaN then NaN else if number_less y x then y else x)"

definition Math_max :: "number \<Rightarrow> number \<Rightarrow> number" where
  "Math_max x y = (if x = NaN \<or> y = NaN then NaN else if number_less x y then y else x)"

text \<open>
  \<^verbatim>\<open>x * y\<close>: \<^verbatim>\<open>NaN\<close> if either is, and for an infinity times zero; the product of two
  finite values is rounded.
\<close>

definition negative :: "number \<Rightarrow> bool" where
  "negative x = number_less x (Finite 0)"

definition multiply :: "number \<Rightarrow> number \<Rightarrow> number" where
  "multiply x y =
     (case (x, y) of
        (Finite a, Finite b) \<Rightarrow> round_double (a * b)
      | _ \<Rightarrow>
          if x = NaN \<or> y = NaN \<or> x = Finite 0 \<or> y = Finite 0 then NaN
          else if negative x = negative y then PosInfinity
          else NegInfinity)"

text \<open>\<^verbatim>\<open>Math.max(0, Math.min(1, v))\<close>.\<close>

definition clamp01 :: "number \<Rightarrow> number" where
  "clamp01 v = Math_max (Finite 0) (Math_min (Finite 1) v)"

section \<open>\<^verbatim>\<open>js/app.js\<close>: state, cached elements, helpers\<close>

text \<open>
  The five process types are the keys \<^verbatim>\<open>'recipe'\<close>, \<^verbatim>\<open>'production'\<close>, \<^verbatim>\<open>'quality'\<close>,
  \<^verbatim>\<open>'packaging'\<close>, \<^verbatim>\<open>'logistics'\<close> of every table of \<^verbatim>\<open>AppState\<close>, \<^verbatim>\<open>DOMCache\<close> and
  \<^verbatim>\<open>Utils\<close>.
\<close>

datatype slider_type = Recipe | Production | Quality | Packaging | Logistics

text \<open>The literals of the source that are not ASCII, as UTF-8.\<close>

definition label_excellent :: string where
  "label_excellent = [CHR 0xE4, CHR 0xBC, CHR 0x98, CHR 0xE7, CHR 0xA7, CHR 0x80]"

definition label_good :: string where
  "label_good = [CHR 0xE8, CHR 0x89, CHR 0xAF, CHR 0xE5, CHR 0xA5, CHR 0xBD]"

definition label_fair :: string where
  "label_fair = [CHR 0xE4, CHR 0xB8, CHR 0x80, CHR 0xE8, CHR 0x88, CHR 0xAC]"

definition label_high :: string where
  "label_high = [CHR 0xE9, CHR 0xAB, CHR 0x98]"

definition label_medium :: string where
  "label_medium = [CHR 0xE4, CHR 0xB8, CHR 0xAD, CHR 0xE7, CHR 0xAD, CHR 0x89]"

definition label_low :: string where
  "label_low = [CHR 0xE4, CHR 0xBD, CHR 0x8E]"

definition label_pass :: string where
  "label_pass = [CHR 0xE9, CHR 0x80, CHR 0x9A, CHR 0xE8, CHR 0xBF, CHR 0x87]"

definition label_fail :: string where
  "label_fail = [CHR 0xE4, CHR 0xB8, CHR 0x8D, CHR 0xE9, CHR 0x80, CHR 0x9A, CHR 0xE8, CHR 0xBF, CHR 0x87]"

definition emoji_cat :: string where
  "emoji_cat = [CHR 0xF0, CHR 0x9F, CHR 0x90, CHR 0xB1]"

definition emoji_meat :: string where
  "emoji_meat = [CHR 0xF0, CHR 0x9F, CHR 0x8D, CHR 0x96]"

definition default_brand :: string where
  "default_brand = [CHR 0xE5, CHR 0x96, CHR 0xB5, CHR 0xE6, CHR 0x98, CHR 0x9F, CHR 0xE4, CHR 0xBA,
     CHR 0xBA, CHR 0xE4, CHR 0xBC, CHR 0x98, CHR 0xE9, CHR 0x80, CHR 0x89]"

definition eighteen_months :: string where
  "eighteen_months = [CHR ''1'', CHR ''8'', CHR 0xE4, CHR 0xB8, CHR 0xAA, CHR 0xE6, CHR 0x9C, CHR 0x88]"

subsection \<open>\<^verbatim>\<open>Utils\<close>\<close>

definition getQualityLabel :: "rat \<Rightarrow> string" where
  "getQualityLabel v =
     (if v \<ge> 80 then label_excellent
      else if v \<ge> 60 then label_good
      else label_fair)"

definition getCostLabel :: "rat \<Rightarrow> string" where
  "getCostLabel totalScore =
     (if totalScore \<ge> 80 then label_high
      else if totalScore \<ge> 60 then label_medium
      else label_low)"

fun getStepNumber :: "slider_type \<Rightarrow> nat" where
  "getStepNumber Recipe = 1"
| "getStepNumber Production = 2"
| "getStepNumber Quality = 3"
| "getStepNumber Packaging = 4"
| "getStepNumber Logistics = 5"

definition getTypeFromStep :: "nat \<Rightarrow> slider_type option" where
  "getTypeFromStep step =
     (if step = 1 then Some Recipe
      else if step = 2 then Some Production
      else if step = 3 then Some Quality
      else if step = 4 then Some Packaging
      else if step = 5 then Some Logistics
      else None)"

fun getProcessColor :: "slider_type \<Rightarrow> string" where
  "getProcessColor Recipe = ''#FF6B6B''"
| "getProcessColor Production = ''#4ECDC4''"
| "getProcessColor Quality = ''#45B7D1''"
| "getProcessColor Packaging = ''#96CEB4''"
| "getProcessColor Logistics = ''#FFE66D''"

subsection \<open>\<^verbatim>\<open>AppState\<close> and the page\<close>

text \<open>
  What the code throws: a \<^verbatim>\<open>TypeError\<close> of the language (a property of \<^verbatim>\<open>null\<close> or
  \<^verbatim>\<open>undefined\<close>, a call of something that is no function), the rejections of
  \<^verbatim>\<open>fetch\<close> and \<^verbatim>\<open>response.json()\<close>, and one constructor for each
  \<^verbatim>\<open>throw new Error(...)\<close> of the source.
\<close>

datatype error =
    TypeError
  | NetworkFailure
  | JsonSyntaxError
  | ConfigLoadFailed nat
  | AudioLoadFailed nat
  | FactoryNotInitialized
  | UnsupportedSoundType "string option"
  | UnsupportedGenerator string

text \<open>An element of the page: its class list and the two inline styles the code writes.\<close>

record element =
  classes :: "string set"
  opacity :: "rat option"
  background :: "string option"

record emoji_option =
  option_classes :: "string set"
  data_emoji :: string

text \<open>
  \<^verbatim>\<open>AppState\<close> (the first four fields) and the elements the code reads and writes:
  those of \<^verbatim>\<open>DOMCache\<close>, the \<^verbatim>\<open>brandName\<close> input and the elements found by
  \<^verbatim>\<open>querySelectorAll\<close>, in document order. A range input's \<^verbatim>\<open>value\<close> is the decimal
  numeral of a number: \<open>sliders\<close> keeps the number, and the numeral is written where the
  source concatenates it. \<^verbatim>\<open>step-i\<close> and \<^verbatim>\<open>connector-i\<close>, which
  \<^verbatim>\<open>ProductionController\<close> looks up by id, are the elements cached in
  \<^verbatim>\<open>DOMCache.steps\<close> and \<^verbatim>\<open>DOMCache.connectors\<close> under \<open>getTypeFromStep i\<close>.
\<close>

record page =
  selectedService :: string
  selectedEmoji :: string
  currentStep :: nat
  processConfig :: "slider_type \<Rightarrow> int"
  sliders :: "slider_type \<Rightarrow> nat"
  sliderValues :: "slider_type \<Rightarrow> string"
  stepValues :: "slider_type \<Rightarrow> string"
  steps :: "slider_type \<Rightarrow> element"
  connectors :: "slider_type \<Rightarrow> element"
  productOutput :: "string set"
  productEmoji :: string
  productTitle :: string
  productImage :: string
  productionDate :: string
  expiryDate :: string
  trackingNumber :: string
  stats :: "slider_type \<Rightarrow> string"
  stats_cost :: string
  brandName :: string
  serviceCards :: "string set list"
  emojiOptions :: "emoji_option list"

text \<open>A loop whose body may throw: the first error ends it.\<close>

fun forEach :: "('a \<Rightarrow> 's \<Rightarrow> error + 's) \<Rightarrow> 'a list \<Rightarrow> 's \<Rightarrow> error + 's" where
  "forEach body [] s = Inr s"
| "forEach body (x # xs) s = (case body x s of Inl e \<Rightarrow> Inl e | Inr s' \<Rightarrow> forEach body xs s')"

subsection \<open>\<^verbatim>\<open>SliderController\<close>\<close>

definition updateConnectorColor :: "slider_type \<Rightarrow> rat \<Rightarrow> page \<Rightarrow> page" where
  "updateConnectorColor t v p =
     (let color = getProcessColor t;
          opacity' = v / 100
      in p\<lparr>connectors := (connectors p)
            (t := (connectors p t)\<lparr>opacity := Some opacity', background := Some color\<rparr>)\<rparr>)"

definition updateSlider :: "slider_type \<Rightarrow> page \<Rightarrow> page" where
  "updateSlider t p =
     (let v = sliders p t;
          p1 = p\<lparr>processConfig := (processConfig p)(t := int v)\<rparr>;
          p2 = p1\<lparr>sliderValues := (sliderValues p1)(t := toString_nat v @ ''%'')\<rparr>;
          p3 = p2\<lparr>stepValues := (stepValues p2)(t := toString_nat v @ ''%'')\<rparr>;
          opacity' = of_nat v / 100;
          p4 = p3\<lparr>steps := (steps p3)(t := (steps p3 t)\<lparr>opacity := Some opacity'\<rparr>)\<rparr>
      in updateConnectorColor t (of_nat v) p4)"

definition initialize_sliders :: "page \<Rightarrow> page" where
  "initialize_sliders p =
     updateSlider Logistics (updateSlider Packaging (updateSlider Quality
       (updateSlider Production (updateSlider Recipe p))))"

text \<open>
  Moving a slider: the browser stores the new value in the range input and then runs the
  input handler, \<^verbatim>\<open>SliderController.updateSlider(type)\<close>.
\<close>

definition moveSlider :: "slider_type \<Rightarrow> nat \<Rightarrow> page \<Rightarrow> page" where
  "moveSlider t v p = updateSlider t (p\<lparr>sliders := (sliders p)(t := v)\<rparr>)"

subsection \<open>\<^verbatim>\<open>ProductionController\<close>\<close>

definition resetProcess_body :: "nat \<Rightarrow> page \<Rightarrow> error + page" where
  "resetProcess_body i p =
     (case getTypeFromStep i of
        None \<Rightarrow> Inl TypeError
      | Some t \<Rightarrow>
          (let p1 = p\<lparr>steps := (steps p)
                      (t := (steps p t)\<lparr>classes := classes (steps p t) - {''active'', ''completed''}\<rparr>)\<rparr>;
               p2 = p1\<lparr>connectors := (connectors p1)
                      (t := (connectors p1 t)\<lparr>classes := classes (connectors p1 t) - {''active''}\<rparr>)\<rparr>;
               v = of_int (processConfig p2 t);
               p3 = p2\<lparr>steps := (steps p2)(t := (steps p2 t)\<lparr>opacity := Some (v / 100)\<rparr>)\<rparr>
           in Inr (updateConnectorColor t v p3)))"

definition resetProcess :: "page \<Rightarrow> error + page" where
  "resetProcess p = forEach resetProcess_body [1, 2, 3, 4, 5] p"

text \<open>
  \<^verbatim>\<open>activateStep\<close>: the part that runs at once, and the callback it leaves with
  \<^verbatim>\<open>setTimeout\<close> for 600 ms later.
\<close>

definition activateStep :: "nat \<Rightarrow> page \<Rightarrow> error + page" where
  "activateStep stepNumber p =
     (case getTypeFromStep stepNumber of
        None \<Rightarrow> Inl TypeError
      | Some t \<Rightarrow>
          (let p1 = p\<lparr>steps := (steps p)
                      (t := (steps p t)\<lparr>classes := insert ''active'' (classes (steps p t))\<rparr>)\<rparr>
           in Inr (p1\<lparr>connectors := (connectors p1)
                      (t := (connectors p1 t)\<lparr>classes := insert ''active'' (classes (connectors p1 t))\<rparr>)\<rparr>)))"

definition activateStep_timeout :: "slider_type \<Rightarrow> page \<Rightarrow> page" where
  "activateStep_timeout t p =
     p\<lparr>steps := (steps p)
        (t := (steps p t)\<lparr>classes := insert ''completed'' (classes (steps p t)) - {''active''}\<rparr>)\<rparr>"

definition updateDateInfo :: "string \<Rightarrow> page \<Rightarrow> page" where
  \<comment> \<open>\<open>isoDate\<close> is \<^verbatim>\<open>new Date().toISOString().split('T')[0]\<close>, read from the clock\<close>
  "updateDateInfo isoDate p = p\<lparr>productionDate := isoDate, expiryDate := eighteen_months\<rparr>"

definition updateStats :: "page \<Rightarrow> page" where
  "updateStats p =
     (let c = processConfig p;
          p1 = p\<lparr>stats := (stats p)(Recipe := getQualityLabel (of_int (c Recipe)))\<rparr>;
          p2 = p1\<lparr>stats := (stats p1)(Production := getQualityLabel (of_int (c Production)))\<rparr>;
          p3 = p2\<lparr>stats := (stats p2)(Quality := (if c Quality \<ge> 60 then label_pass else label_fail))\<rparr>;
          p4 = p3\<lparr>stats := (stats p3)(Packaging := getQualityLabel (of_int (c Packaging)))\<rparr>;
          p5 = p4\<lparr>stats := (stats p4)(Logistics := getQualityLabel (of_int (c Logistics)))\<rparr>;
          totalScore = of_int (c Recipe + c Production + c Packaging + c Logistics) / 4
      in p5\<lparr>stats_cost := getCostLabel totalScore\<rparr>)"

definition generateTrackingNumber :: "int \<Rightarrow> page \<Rightarrow> page" where
  \<comment> \<open>\<open>now\<close> is \<^verbatim>\<open>Date.now()\<close>, the milliseconds since the epoch\<close>
  "generateTrackingNumber now p =
     p\<lparr>trackingNumber := ''TRK-'' @ slice_from (- 8) (toString_int now)\<rparr>"

definition updateProductInfo :: "string \<Rightarrow> string \<Rightarrow> int \<Rightarrow> page \<Rightarrow> page" where
  "updateProductInfo brand isoDate now p =
     (let p1 = p\<lparr>productEmoji := selectedEmoji p, productTitle := brand,
                 productImage := selectedEmoji p @ emoji_meat\<rparr>
      in generateTrackingNumber now (updateStats (updateDateInfo isoDate p1)))"

definition showFinalProduct :: "string \<Rightarrow> int \<Rightarrow> page \<Rightarrow> page" where
  "showFinalProduct isoDate now p =
     (let brand = (if brandName p = [] then default_brand else brandName p);
          p1 = updateProductInfo brand isoDate now p
      in p1\<lparr>productOutput := insert ''show'' (productOutput p1)\<rparr>)"

text \<open>
  \<^verbatim>\<open>startProductionAnimation\<close> resets the step counter and installs an interval of
  800 ms. \<open>processInterval\<close> is one run of the interval's callback; the flag returned with
  the page says whether the callback cleared the interval. The clock is read only by the
  run that shows the product.
\<close>

definition startProductionAnimation :: "page \<Rightarrow> page" where
  "startProductionAnimation p = p\<lparr>currentStep := 0\<rparr>"

definition processInterval :: "string \<Rightarrow> int \<Rightarrow> page \<Rightarrow> error + (bool \<times> page)" where
  "processInterval isoDate now p =
     (let steps' = [1, 2, 3, 4, 5 :: nat] in
      if currentStep p < length steps' then
        (case activateStep (steps' ! currentStep p) p of
           Inl e \<Rightarrow> Inl e
         | Inr p1 \<Rightarrow> Inr (False, p1\<lparr>currentStep := currentStep p1 + 1\<rparr>))
      else Inr (True, showFinalProduct isoDate now p))"

text \<open>The runs of the callback until it clears the interval, at most \<open>n\<close> of them.\<close>

fun runInterval :: "nat \<Rightarrow> string \<Rightarrow> int \<Rightarrow> page \<Rightarrow> error + (bool \<times> page)" where
  "runInterval 0 isoDate now p = Inr (False, p)"
| "runInterval (Suc n) isoDate now p =
     (case processInterval isoDate now p of
        Inl e \<Rightarrow> Inl e
      | Inr (True, p') \<Rightarrow> Inr (True, p')
      | Inr (False, p') \<Rightarrow> runInterval n isoDate now p')"

subsection \<open>\<^verbatim>\<open>UIController\<close>\<close>

definition resetUIState :: "page \<Rightarrow> error + page" where
  \<comment> \<open>\<^verbatim>\<open>document.querySelector\<close> gives the first match, \<^verbatim>\<open>null\<close> when there is none\<close>
  "resetUIState p =
     (case map (\<lambda>sc. sc - {''active''}) (serviceCards p) of
        [] \<Rightarrow> Inl TypeError
      | sc # scs \<Rightarrow>
          (case map (\<lambda>opt. opt\<lparr>option_classes := option_classes opt - {''selected''}\<rparr>)
                  (emojiOptions p) of
             [] \<Rightarrow> Inl TypeError
           | opt # opts \<Rightarrow>
               Inr (p\<lparr>serviceCards := insert ''active'' sc # scs,
                      emojiOptions :=
                        opt\<lparr>option_classes := insert ''selected'' (option_classes opt)\<rparr> # opts,
                      selectedEmoji := emoji_cat\<rparr>)))"

definition resetSliders :: "page \<Rightarrow> page" where
  "resetSliders p =
     (let p1 = p\<lparr>sliders := (sliders p)(Recipe := 75)\<rparr>;
          p2 = p1\<lparr>sliders := (sliders p1)(Production := 80)\<rparr>;
          p3 = p2\<lparr>sliders := (sliders p2)(Quality := 90)\<rparr>;
          p4 = p3\<lparr>sliders := (sliders p3)(Packaging := 70)\<rparr>;
          p5 = p4\<lparr>sliders := (sliders p4)(Logistics := 85)\<rparr>
      in initialize_sliders p5)"

definition resetSystem :: "page \<Rightarrow> error + page" where
  "resetSystem p =
     (let p1 = p\<lparr>selectedService := ''premium'', currentStep := 0\<rparr> in
      case resetUIState p1 of
        Inl e \<Rightarrow> Inl e
      | Inr p2 \<Rightarrow>
          (case resetProcess (resetSliders p2) of
             Inl e \<Rightarrow> Inl e
           | Inr p3 \<Rightarrow> Inr (p3\<lparr>productOutput := productOutput p3 - {''show''}\<rparr>)))"

definition launchProduction :: "page \<Rightarrow> error + page" where
  "launchProduction p =
     (case resetProcess p of Inl e \<Rightarrow> Inl e | Inr p1 \<Rightarrow> Inr (startProductionAnimation p1))"

text \<open>The pattern \<^verbatim>\<open>TRK-########\<close>: \<^verbatim>\<open>TRK-\<close> and then exactly eight decimal digits.\<close>

definition is_tracking_number :: "string \<Rightarrow> bool" where
  "is_tracking_number s =
     (take 4 s = ''TRK-'' \<and> length (drop 4 s) = 8 \<and> list_all is_digit (drop 4 s))"

section \<open>\<^verbatim>\<open>js/audio/audio-settings.js\<close>\<close>

record category_settings =
  volume :: number
  enabled :: bool

text \<open>
  The part of \<^verbatim>\<open>AudioSettings.settings\<close> that the volume functions and the audio system
  read: \<^verbatim>\<open>global\<close>, \<^verbatim>\<open>categories\<close>, and one flag each of \<^verbatim>\<open>performance\<close> and
  \<^verbatim>\<open>debug\<close>. Writing the settings to local storage and dispatching the change events do
  not change the settings and are left out.
\<close>

record audio_settings =
  global_enabled :: bool
  masterVolume :: number
  mute :: bool
  categories :: "string \<rightharpoonup> category_settings"
  preloadEnabled :: bool
  loggingEnabled :: bool

definition default_categories :: "(string \<times> category_settings) list" where
  "default_categories =
     [(''ui'', \<lparr>volume = literal (7 / 10), enabled = True\<rparr>),
      (''game'', \<lparr>volume = literal (8 / 10), enabled = True\<rparr>),
      (''music'', \<lparr>volume = literal (6 / 10), enabled = True\<rparr>),
      (''environment'', \<lparr>volume = literal (5 / 10), enabled = True\<rparr>),
      (''production'', \<lparr>volume = literal (9 / 10), enabled = True\<rparr>),
      (''customer'', \<lparr>volume = literal (7 / 10), enabled = True\<rparr>)]"

definition default_settings :: audio_settings where
  \<comment> \<open>the constructor\<close>
  "default_settings =
     \<lparr>global_enabled = True, masterVolume = literal (8 / 10), mute = False,
      categories = map_of default_categories,
      preloadEnabled = True, loggingEnabled = False\<rparr>"

text \<open>
  \<^verbatim>\<open>categories[category]\<close> reads a property of a plain object: an own property if there
  is one, otherwise whatever \<^verbatim>\<open>Object.prototype\<close> has under that name, which is a function
  or an object and has no \<^verbatim>\<open>enabled\<close>. (\<^verbatim>\<open>setCategoryEnabled\<close>, which could write one
  there, is not part of the model.)
\<close>

definition object_prototype_keys :: "string list" where
  "object_prototype_keys =
     [''constructor'', ''__proto__'', ''hasOwnProperty'', ''isPrototypeOf'',
      ''propertyIsEnumerable'', ''toLocaleString'', ''toString'', ''valueOf'',
      ''__defineGetter__'', ''__defineSetter__'', ''__lookupGetter__'', ''__lookupSetter__'']"

datatype 'a property = Undefined | Inherited | Own 'a

definition get_property :: "(string \<rightharpoonup> 'a) \<Rightarrow> string \<Rightarrow> 'a property" where
  "get_property obj key =
     (case obj key of
        Some v \<Rightarrow> Own v
      | None \<Rightarrow> if key \<in> set object_prototype_keys then Inherited else Undefined)"

definition getVolume :: "string option \<Rightarrow> audio_settings \<Rightarrow> number" where
  \<comment> \<open>an empty string is falsy, like \<^verbatim>\<open>null\<close>; an inherited property is truthy and its
     \<^verbatim>\<open>enabled\<close> is \<^verbatim>\<open>undefined\<close>\<close>
  "getVolume category s =
     (if \<not> global_enabled s \<or> mute s then Finite 0
      else
        let v = masterVolume s in
        case category of
          None \<Rightarrow> clamp01 v
        | Some c \<Rightarrow>
            if c = [] then clamp01 v
            else
              (case get_property (categories s) c of
                 Undefined \<Rightarrow> clamp01 v
               | Inherited \<Rightarrow> Finite 0
               | Own categorySettings \<Rightarrow>
                   if \<not> enabled categorySettings then Finite 0
                   else clamp01 (multiply v (volume categorySettings))))"

definition setMasterVolume :: "number \<Rightarrow> audio_settings \<Rightarrow> audio_settings" where
  "setMasterVolume v s = s\<lparr>masterVolume := clamp01 v\<rparr>"

definition setCategoryVolume :: "string \<Rightarrow> number \<Rightarrow> audio_settings \<Rightarrow> audio_settings" where
  \<comment> \<open>under an inherited name the assignment lands on the built-in object, not in the settings\<close>
  "setCategoryVolume category v s =
     (case get_property (categories s) category of
        Own categorySettings \<Rightarrow>
          s\<lparr>categories := (categories s)(category \<mapsto> categorySettings\<lparr>volume := clamp01 v\<rparr>)\<rparr>
      | _ \<Rightarrow> s)"

definition setEnabled :: "bool \<Rightarrow> audio_settings \<Rightarrow> audio_settings" where
  "setEnabled b s = s\<lparr>global_enabled := b\<rparr>"

definition setMute :: "bool \<Rightarrow> audio_settings \<Rightarrow> audio_settings" where
  "setMute b s = s\<lparr>mute := b\<rparr>"

text \<open>
  The four calls that change volumes and global switches, and the settings a sequence of
  them leaves, starting from the constructor's.
\<close>

datatype settings_call =
    SetMasterVolume number
  | SetCategoryVolume string number
  | SetMute bool
  | SetEnabled bool

fun call_setter :: "audio_settings \<Rightarrow> settings_call \<Rightarrow> audio_settings" where
  "call_setter s (SetMasterVolume v) = setMasterVolume v s"
| "call_setter s (SetCategoryVolume c v) = setCategoryVolume c v s"
| "call_setter s (SetMute b) = setMute b s"
| "call_setter s (SetEnabled b) = setEnabled b s"

definition settings_after :: "settings_call list \<Rightarrow> audio_settings" where
  "settings_after calls = foldl call_setter default_settings calls"

section \<open>Predicates and examples used in the statements\<close>


text \<open>
  The words of the claim for what a volume setter stores, a value clamped into [0, 1]:
  0 for a value below 0, 1 for a value above 1, the value itself in between. The words
  leave \<^verbatim>\<open>NaN\<close> open; it is stored as it is.
\<close>

definition clamped :: "number \<Rightarrow> number" where
  "clamped v =
     (case v of
        NaN \<Rightarrow> NaN
      | NegInfinity \<Rightarrow> Finite 0
      | PosInfinity \<Rightarrow> Finite 1
      | Finite r \<Rightarrow> Finite (if r < 0 then 0 else if 1 < r then 1 else r))"




section \<open>Reading configuration files\<close>

text \<open>
  What \<^verbatim>\<open>await fetch(path)\<close> followed by \<^verbatim>\<open>await response.json()\<close> gives for a path:
  the fetch is rejected, the response is not \<^verbatim>\<open>ok\<close> (with its status), the body is no
  JSON, or the parsed value. The parsed value has the shape the loader expects, or is
  \<open>Malformed\<close>: a value on which the loader's property reads throw a \<^verbatim>\<open>TypeError\<close>.
\<close>

datatype 'a fetched = FetchRejected | ResponseNotOk nat | JsonRejected | Parsed 'a

text \<open>
  A value as \<^verbatim>\<open>JSON.parse\<close> gives it, for the places where the code hands a value on or
  only asks whether it is truthy.
\<close>

datatype json =
    JNull
  | JBool bool
  | JNum rat
  | JStr string
  | JArr "json list"
  | JObj "(string \<times> json) list"

fun truthy :: "json \<Rightarrow> bool" where
  "truthy JNull = False"
| "truthy (JBool b) = b"
| "truthy (JNum r) = (r \<noteq> 0)"
| "truthy (JStr s) = (s \<noteq> [])"
| "truthy (JArr vs) = True"
| "truthy (JObj kvs) = True"

section \<open>The sound mapping system\<close>

text \<open>
  The data of an audio event, as far as the conditions of the source read it: a property
  is \<open>None\<close> when it is missing, \<^verbatim>\<open>delta\<close> and \<^verbatim>\<open>quality\<close> are the numbers that the
  comparisons convert the properties to, and \<^verbatim>\<open>time_of_day\<close> and \<^verbatim>\<open>mood\<close> are only
  compared with strings. Where the data itself is passed, \<open>None\<close> is \<^verbatim>\<open>null\<close>, on
  which every property read throws; an omitted argument is the empty object.
\<close>

record event_data =
  delta :: "number option"
  quality :: "number option"
  time_of_day :: "string option"
  mood :: "string option"

text \<open>
  The \<^verbatim>\<open>condition\<close> of a conditional mapping, as \<^verbatim>\<open>getSoundForAction\<close> uses it: a falsy
  value (missing, \<^verbatim>\<open>null\<close>, an empty string), a truthy value that is no function, such as
  the string of a configuration file, or a function, which throws or returns a value that
  is truthy or falsy.
\<close>

datatype condition =
    NoCondition
  | NotAFunction
  | Predicate "event_data option \<Rightarrow> error + bool"

text \<open>A conditional mapping. \<^verbatim>\<open>sound\<close> is a string, or missing.\<close>

record conditional_mapping =
  condition :: condition
  sound :: "string option"

text \<open>
  \<^verbatim>\<open>mappings\<close> is a \<^verbatim>\<open>Map\<close> that is only read by key; \<^verbatim>\<open>conditionalMappings\<close> is a
  \<^verbatim>\<open>Map\<close> that is iterated, in the order in which its keys were first set. A value of
  \<^verbatim>\<open>conditionalMappings\<close> is whatever the configuration had under the key: \<open>None\<close> is
  \<^verbatim>\<open>null\<close>, and a value that is no object has no \<^verbatim>\<open>condition\<close> and no \<^verbatim>\<open>sound\<close>.
\<close>

record sound_mapping_system =
  mappings :: "string \<rightharpoonup> string"
  conditionalMappings :: "(string \<times> conditional_mapping option) list"
  mapping_isInitialized :: bool

definition new_SoundMappingSystem :: sound_mapping_system where
  \<comment> \<open>the constructor\<close>
  "new_SoundMappingSystem =
     \<lparr>mappings = Map.empty, conditionalMappings = [], mapping_isInitialized = False\<rparr>"

record mapping_config =
  config_mappings :: "(string \<times> string) list option"
  config_conditional_mappings :: "(string \<times> conditional_mapping option) list option"

definition loadConfig :: "mapping_config \<Rightarrow> sound_mapping_system \<Rightarrow> sound_mapping_system" where
  "loadConfig config s =
     (let m = (case config_mappings config of
                 None \<Rightarrow> Map.empty
               | Some entries \<Rightarrow> foldl (\<lambda>m (action, soundName). m(action \<mapsto> soundName)) Map.empty entries);
          c = (case config_conditional_mappings config of
                 None \<Rightarrow> []
               | Some entries \<Rightarrow> foldl (\<lambda>c (name, mapping). AList.update name mapping c) [] entries)
      in s\<lparr>mappings := m, conditionalMappings := c\<rparr>)"

text \<open>
  The shapes of the mappings file. The conditional mappings are an object with an array
  \<^verbatim>\<open>rules\<close>, or an object whose entries are the mappings themselves, in the order in which
  \<^verbatim>\<open>Object.entries\<close> lists them; such an entry is \<^verbatim>\<open>null\<close> or has a \<^verbatim>\<open>condition\<close> and
  a \<^verbatim>\<open>sound\<close>, which come from a JSON text and so are never functions.
\<close>

record action_config =
  sound_name :: "string option"

record category_config =
  actions :: "(string \<times> action_config) list option"

record rule =
  rule_condition :: "string option"
  rule_mappings :: "(string \<times> action_config) list option"

record json_mapping =
  json_condition :: "json option"
  json_sound :: "string option"

datatype conditional_file =
    Rules "rule list"
  | Direct "(string \<times> json_mapping option) list"

datatype mapping_file =
    Full "(string \<times> category_config) list" "conditional_file option"
  | Plain "(string \<times> string) list"
  | Malformed

text \<open>
  \<^verbatim>\<open>flattenMappings\<close>. An action without \<^verbatim>\<open>sound_name\<close> is stored by the source with the
  value \<^verbatim>\<open>undefined\<close>; here it is stored with the empty name, which is falsy as well and
  is read back as \<^verbatim>\<open>null\<close> in the same way.
\<close>

definition flattenMappings :: "(string \<times> category_config) list \<Rightarrow> (string \<times> string) list" where
  "flattenMappings ms =
     concat (map (\<lambda>(category, categoryConfig).
       case actions categoryConfig of
         None \<Rightarrow> []
       | Some acts \<Rightarrow>
           map (\<lambda>(action, actionConfig).
             (category @ ''_'' @ action,
              case sound_name actionConfig of None \<Rightarrow> [] | Some n \<Rightarrow> n)) acts) ms)"

definition is_alnum :: "char \<Rightarrow> bool" where
  "is_alnum c =
     (c \<in> set ''abcdefghijklmnopqrstuvwxyzABCDEFGHIJKLMNOPQRSTUVWXYZ0123456789'')"

text \<open>
  \<^verbatim>\<open>replace(/[^a-zA-Z0-9]/g, '_')\<close> puts one underscore for each UTF-16 code unit that is
  no letter or digit. On the UTF-8 bytes of the string: a byte below 128 is a code unit of
  its own, a byte from 128 to 191 continues a character, a byte from 192 to 239 starts a
  character of one code unit and a byte from 240 on one of two.
\<close>

definition replace_unit :: "char \<Rightarrow> string" where
  "replace_unit c =
     (let b = (of_char c :: nat)
      in if is_alnum c then [c]
         else if b < 128 then ''_''
         else if b < 192 then []
         else if b < 240 then ''_''
         else ''__'')"

definition replace_non_alnum :: "string \<Rightarrow> string" where
  "replace_non_alnum str = concat (map replace_unit str)"

text \<open>
  A function that reads properties of the data and compares them: it throws a
  \<^verbatim>\<open>TypeError\<close> on \<^verbatim>\<open>null\<close>.
\<close>

definition reading :: "(event_data \<Rightarrow> bool) \<Rightarrow> event_data option \<Rightarrow> error + bool" where
  "reading f data = (case data of None \<Rightarrow> Inl TypeError | Some d \<Rightarrow> Inr (f d))"

definition rule_predicate :: "string \<Rightarrow> event_data option \<Rightarrow> error + bool" where
  \<comment> \<open>the closure that \<^verbatim>\<open>flattenConditionalMappings\<close> builds for a rule\<close>
  "rule_predicate cond data =
     (if includes_str cond ''time_of_day'' then
        reading (\<lambda>d. time_of_day d = Some ''night'') data
      else if includes_str cond ''production_quality'' then
        reading (\<lambda>d. case quality d of Some q \<Rightarrow> number_le (Finite 90) q | None \<Rightarrow> False) data
      else if includes_str cond ''customer_mood'' then
        reading (\<lambda>d. mood d = Some ''happy'') data
      else Inr False)"

definition rule_sound :: "(string \<times> action_config) list \<Rightarrow> string" where
  \<comment> \<open>\<^verbatim>\<open>Object.values(rule.mappings)[0]?.sound_name || 'click_sound'\<close>\<close>
  "rule_sound ms =
     (case ms of
        [] \<Rightarrow> ''click_sound''
      | (_, a) # _ \<Rightarrow>
          (case sound_name a of
             None \<Rightarrow> ''click_sound''
           | Some n \<Rightarrow> if n = [] then ''click_sound'' else n))"

text \<open>
  An entry of the second shape is copied as it is. What \<^verbatim>\<open>getSoundForAction\<close> later sees
  in it: no condition if the \<^verbatim>\<open>condition\<close> is missing or falsy, and otherwise a truthy
  value that is no function.
\<close>

definition copied :: "json_mapping \<Rightarrow> conditional_mapping" where
  "copied m =
     \<lparr>condition =
        (case json_condition m of
           None \<Rightarrow> NoCondition
         | Some c \<Rightarrow> if truthy c then NotAFunction else NoCondition),
      sound = json_sound m\<rparr>"

definition flattenConditionalMappings ::
    "conditional_file \<Rightarrow> (string \<times> conditional_mapping option) list" where
  "flattenConditionalMappings cf =
     (case cf of
        Rules rules \<Rightarrow>
          concat (map (\<lambda>r.
            case (rule_condition r, rule_mappings r) of
              (Some cond, Some ms) \<Rightarrow>
                if cond = [] then []
                else [(''rule_'' @ replace_non_alnum cond,
                       Some \<lparr>condition = Predicate (rule_predicate cond),
                             sound = Some (rule_sound ms)\<rparr>)]
            | _ \<Rightarrow> []) rules)
      | Direct entries \<Rightarrow> map (\<lambda>(conditionName, mapping). (conditionName, map_option copied mapping)) entries)"

definition mapping_loadConfigFromFile ::
    "(string \<Rightarrow> mapping_file fetched) \<Rightarrow> string \<Rightarrow> sound_mapping_system
       \<Rightarrow> error + sound_mapping_system" where
  \<comment> \<open>the \<^verbatim>\<open>catch\<close> logs the error and throws it again\<close>
  "mapping_loadConfigFromFile net configPath s =
     (case net configPath of
        FetchRejected \<Rightarrow> Inl NetworkFailure
      | ResponseNotOk status \<Rightarrow> Inl (ConfigLoadFailed status)
      | JsonRejected \<Rightarrow> Inl JsonSyntaxError
      | Parsed Malformed \<Rightarrow> Inl TypeError
      | Parsed (Full ms cms) \<Rightarrow>
          Inr (loadConfig
                 \<lparr>config_mappings = Some (flattenMappings ms),
                  config_conditional_mappings =
                    Some (case cms of None \<Rightarrow> [] | Some cf \<Rightarrow> flattenConditionalMappings cf)\<rparr> s)
      | Parsed (Plain ms) \<Rightarrow>
          Inr (loadConfig \<lparr>config_mappings = Some ms, config_conditional_mappings = Some []\<rparr> s))"

definition default_mappings :: "(string \<times> string) list" where
  "default_mappings =
     [(''button_click'', ''click_sound''),
      (''button_hover'', ''hover_sound''),
      (''slider_adjusted'', ''slider_move''),
      (''slider_released'', ''slider_release''),
      (''ui_emoji_select'', ''click_sound''),
      (''ui_slider_adjust'', ''slider_move''),
      (''ui_service_select'', ''click_sound''),
      (''ui_system_reset'', ''click_sound''),
      (''ui_product_share'', ''click_sound''),
      (''ui_product_download'', ''click_sound''),
      (''money_changed'', ''coin_sound''),
      (''level_up'', ''level_up_sound''),
      (''production_started'', ''machine_start''),
      (''production_completed'', ''success_sound''),
      (''production_production_start'', ''machine_start''),
      (''production_step_recipe'', ''click_sound''),
      (''production_step_production'', ''click_sound''),
      (''production_step_quality'', ''click_sound''),
      (''production_step_packaging'', ''click_sound''),
      (''production_step_logistics'', ''click_sound''),
      (''production_step_complete'', ''success_sound''),
      (''production_production_complete'', ''production_complete''),
      (''background_music'', ''ambient_music''),
      (''ui_transition'', ''transition_sound'')]"

text \<open>The four conditions of the default configuration; a comparison with \<^verbatim>\<open>undefined\<close> is false.\<close>

definition money_increased :: "event_data option \<Rightarrow> error + bool" where
  "money_increased =
     reading (\<lambda>data. case delta data of Some d \<Rightarrow> number_less (Finite 0) d | None \<Rightarrow> False)"

definition money_decreased :: "event_data option \<Rightarrow> error + bool" where
  "money_decreased =
     reading (\<lambda>data. case delta data of Some d \<Rightarrow> number_less d (Finite 0) | None \<Rightarrow> False)"

definition high_quality :: "event_data option \<Rightarrow> error + bool" where
  "high_quality =
     reading (\<lambda>data. case quality data of Some q \<Rightarrow> number_less (Finite 80) q | None \<Rightarrow> False)"

definition low_quality :: "event_data option \<Rightarrow> error + bool" where
  "low_quality =
     reading (\<lambda>data. case quality data of Some q \<Rightarrow> number_less q (Finite 30) | None \<Rightarrow> False)"

definition default_conditional_mappings :: "(string \<times> conditional_mapping option) list" where
  "default_conditional_mappings =
     [(''money_increased'', Some \<lparr>condition = Predicate money_increased, sound = Some ''coin_gain''\<rparr>),
      (''money_decreased'', Some \<lparr>condition = Predicate money_decreased, sound = Some ''coin_loss''\<rparr>),
      (''high_quality'',
         Some \<lparr>condition = Predicate high_quality, sound = Some ''high_quality_sound''\<rparr>),
      (''low_quality'',
         Some \<lparr>condition = Predicate low_quality, sound = Some ''low_quality_sound''\<rparr>)]"

definition mapping_loadDefaultConfig :: "sound_mapping_system \<Rightarrow> sound_mapping_system" where
  "mapping_loadDefaultConfig s =
     loadConfig \<lparr>config_mappings = Some default_mappings,
                 config_conditional_mappings = Some default_conditional_mappings\<rparr> s"

text \<open>The argument of \<^verbatim>\<open>initialize\<close>: nothing, a path, or a configuration object.\<close>

datatype 'c init_argument = NoConfig | ConfigPath string | ConfigObject 'c

definition mapping_initialize ::
    "(string \<Rightarrow> mapping_file fetched) \<Rightarrow> mapping_config init_argument \<Rightarrow> sound_mapping_system
       \<Rightarrow> bool \<times> sound_mapping_system" where
  "mapping_initialize net config s =
     (case (case config of
              ConfigPath p \<Rightarrow> mapping_loadConfigFromFile net p s
            | ConfigObject c \<Rightarrow> Inr (loadConfig c s)
            | NoConfig \<Rightarrow> Inr (mapping_loadDefaultConfig s)) of
        Inr s' \<Rightarrow> (True, s'\<lparr>mapping_isInitialized := True\<rparr>)
      | Inl e \<Rightarrow> (False, s))"

text \<open>
  The loop of \<^verbatim>\<open>getSoundForAction\<close> over the conditional mappings. For each one it
  evaluates \<^verbatim>\<open>mapping.condition && mapping.condition(data)\<close>: reading \<^verbatim>\<open>condition\<close> of
  \<^verbatim>\<open>null\<close> throws, calling a truthy value that is no function throws, and a function may
  throw. The loop returns \<^verbatim>\<open>mapping.sound\<close>, which may be missing, at the first mapping
  for which the expression is truthy; \<open>Inr None\<close> says that the loop has ended without
  returning.
\<close>

fun first_condition ::
    "event_data option \<Rightarrow> (string \<times> conditional_mapping option) list
       \<Rightarrow> error + string option option" where
  "first_condition data [] = Inr None"
| "first_condition data ((conditionName, None) # rest) = Inl TypeError"
| "first_condition data ((conditionName, Some mapping) # rest) =
     (case condition mapping of
        NoCondition \<Rightarrow> first_condition data rest
      | NotAFunction \<Rightarrow> Inl TypeError
      | Predicate holds \<Rightarrow>
          (case holds data of
             Inl e \<Rightarrow> Inl e
           | Inr True \<Rightarrow> Inr (Some (sound mapping))
           | Inr False \<Rightarrow> first_condition data rest))"

definition getSoundForAction ::
    "string \<Rightarrow> event_data option \<Rightarrow> sound_mapping_system \<Rightarrow> error + string option" where
  \<comment> \<open>\<^verbatim>\<open>this.mappings.get(action) || null\<close>: an empty name is falsy\<close>
  "getSoundForAction action data s =
     (if \<not> mapping_isInitialized s then Inr None
      else
        (case first_condition data (conditionalMappings s) of
           Inl e \<Rightarrow> Inl e
         | Inr (Some name) \<Rightarrow> Inr name
         | Inr None \<Rightarrow>
             (case mappings s action of
                None \<Rightarrow> Inr None
              | Some name \<Rightarrow> if name = [] then Inr None else Inr (Some name))))"

definition addMapping :: "string \<Rightarrow> string \<Rightarrow> sound_mapping_system \<Rightarrow> sound_mapping_system" where
  "addMapping action soundName s = s\<lparr>mappings := (mappings s)(action \<mapsto> soundName)\<rparr>"

definition addConditionalMapping ::
    "string \<Rightarrow> condition \<Rightarrow> string \<Rightarrow> sound_mapping_system \<Rightarrow> sound_mapping_system" where
  "addConditionalMapping conditionName cond soundName s =
     s\<lparr>conditionalMappings :=
         AList.update conditionName (Some \<lparr>condition = cond, sound = Some soundName\<rparr>)
           (conditionalMappings s)\<rparr>"

definition removeMapping :: "string \<Rightarrow> sound_mapping_system \<Rightarrow> sound_mapping_system" where
  "removeMapping action s = s\<lparr>mappings := (mappings s)(action := None)\<rparr>"

section \<open>The sound factory\<close>

text \<open>
  An entry of \<^verbatim>\<open>implementations\<close>, with the fields the factory reads; a field that is
  missing is \<open>None\<close>. \<^verbatim>\<open>type\<close>, \<^verbatim>\<open>file\<close>, \<^verbatim>\<open>base_path\<close> and \<^verbatim>\<open>name\<close> are
  strings; \<^verbatim>\<open>generator\<close> is \<open>None\<close> also when it is no string, since then it has no
  method \<^verbatim>\<open>replace\<close> either. The parameters of a sound are passed on as they are;
  \<^verbatim>\<open>parameters\<close> is the other name under which a configuration file may give \<^verbatim>\<open>params\<close>.
  An entry whose value is falsy is taken by \<^verbatim>\<open>generateSound\<close> as no entry and is not
  kept in the model.
\<close>

record implementation =
  impl_type :: "string option"
  generator :: "string option"
  params :: "json option"
  parameters :: "json option"
  impl_file :: "string option"
  base_path :: "string option"
  impl_name :: "string option"

text \<open>
  The node \<^verbatim>\<open>generateSound\<close> returns, by the method that built it and what the method was
  given. The audio graph behind the node is not modelled, and neither are the checks of
  the Web Audio API on the values it is given: on an audio context the calls that build
  the graph are taken to succeed. A decoded audio buffer is named by a string.
\<close>

datatype audio_source =
    SilentSound rat
  | BufferSource string
  | SimpleTone "json option"
  | NoiseBurst "json option"
  | FrequencySweep "json option"
  | PulseSequence "json option"

text \<open>What fetching and decoding an audio file gives.\<close>

datatype audio_fetched = AudioFetchRejected | AudioNotOk nat | DecodeRejected | Decoded string

text \<open>
  \<^verbatim>\<open>getCacheKey\<close> joins the name and \<^verbatim>\<open>JSON.stringify(params)\<close> into one string; the
  pair is kept instead.
\<close>

definition getCacheKey :: "string \<Rightarrow> json option \<Rightarrow> string \<times> json option" where
  "getCacheKey soundName ps = (soundName, ps)"

text \<open>
  The factory keeps the audio context that its constructor is given, which is \<^verbatim>\<open>null\<close>
  when the audio system could not create one. The factory only creates nodes and buffers on
  it and reads its sample rate, so all that is kept of the context is that it is there.
\<close>

datatype audio_context = AudioContext

record sound_factory =
  factory_audioContext :: "audio_context option"
  implementations :: "string \<rightharpoonup> implementation"
  audioBufferPool :: "string \<times> json option \<rightharpoonup> string"
  factory_isInitialized :: bool

definition SoundFactory :: "audio_context option \<Rightarrow> sound_factory" where
  \<comment> \<open>the constructor\<close>
  "SoundFactory context =
     \<lparr>factory_audioContext = context, implementations = Map.empty,
      audioBufferPool = Map.empty, factory_isInitialized = False\<rparr>"

definition new_SoundFactory :: sound_factory where
  \<comment> \<open>\<^verbatim>\<open>new SoundFactory(audioContext)\<close> with an audio context\<close>
  "new_SoundFactory = SoundFactory (Some AudioContext)"

record factory_config =
  sounds :: "(string \<times> implementation) list option"

definition factory_loadConfig :: "factory_config \<Rightarrow> sound_factory \<Rightarrow> sound_factory" where
  "factory_loadConfig config f =
     f\<lparr>implementations :=
         (case sounds config of
            None \<Rightarrow> Map.empty
          | Some entries \<Rightarrow>
              foldl (\<lambda>m (soundName, impl). m(soundName \<mapsto> impl)) Map.empty entries)\<rparr>"

definition web_audio ::
    "string \<Rightarrow> (string \<times> json) list \<Rightarrow> implementation" where
  \<comment> \<open>an entry \<^verbatim>\<open>{type: 'web_audio', generator: g, params: {...}}\<close>\<close>
  "web_audio g ps =
     \<lparr>impl_type = Some ''web_audio'', generator = Some g, params = Some (JObj ps),
      parameters = None, impl_file = None, base_path = None, impl_name = None\<rparr>"

definition default_implementations :: "(string \<times> implementation) list" where
  "default_implementations =
     [(''click_sound'', web_audio ''simple_tone''
         [(''frequency'', JNum 800), (''duration'', JNum (5 / 100)),
          (''waveType'', JStr ''sine''), (''volume'', JNum (3 / 10))]),
      (''hover_sound'', web_audio ''simple_tone''
         [(''frequency'', JNum 600), (''duration'', JNum (3 / 100)),
          (''waveType'', JStr ''sine''), (''volume'', JNum (2 / 10))]),
      (''slider_move'', web_audio ''noise_burst''
         [(''duration'', JNum (2 / 100)), (''volume'', JNum (15 / 100)),
          (''filterType'', JStr ''lowpass''), (''filterFrequency'', JNum 3000)]),
      (''slider_release'', web_audio ''simple_tone''
         [(''frequency'', JNum 400), (''duration'', JNum (8 / 100)),
          (''waveType'', JStr ''sine''), (''volume'', JNum (25 / 100))]),
      (''coin_sound'', web_audio ''complex_sequence''
         [(''sequence'', JArr
            [JObj [(''type'', JStr ''tone''), (''frequency'', JNum 800),
                   (''duration'', JNum (5 / 100)), (''volume'', JNum (3 / 10))],
             JObj [(''type'', JStr ''tone''), (''frequency'', JNum 1200),
                   (''duration'', JNum (1 / 10)), (''volume'', JNum (4 / 10))]])]),
      (''coin_gain'', web_audio ''chord_sequence''
         [(''chords'', JArr
            [JObj [(''notes'', JArr [JNum 523, JNum 659, JNum 784]),
                   (''duration'', JNum (15 / 100)), (''waveType'', JStr ''sine'')]]),
          (''volume'', JNum (5 / 10))]),
      (''coin_loss'', web_audio ''simple_tone''
         [(''frequency'', JNum 200), (''duration'', JNum (2 / 10)),
          (''waveType'', JStr ''sawtooth''), (''volume'', JNum (3 / 10))]),
      (''level_up_sound'', web_audio ''envelope_sequence''
         [(''stages'', JArr
            [JObj [(''frequency'', JNum 300), (''duration'', JNum (1 / 10)),
                   (''volume'', JNum (3 / 10)), (''waveType'', JStr ''sine'')],
             JObj [(''frequency'', JNum 600), (''duration'', JNum (1 / 10)),
                   (''volume'', JNum (5 / 10)), (''waveType'', JStr ''sine'')],
             JObj [(''frequency'', JNum 900), (''duration'', JNum (2 / 10)),
                   (''volume'', JNum (4 / 10)), (''waveType'', JStr ''sine'')]])]),
      (''machine_start'', web_audio ''envelope_sequence''
         [(''stages'', JArr
            [JObj [(''frequency'', JNum 100), (''duration'', JNum (3 / 10)),
                   (''volume'', JNum (2 / 10)), (''waveType'', JStr ''sawtooth'')],
             JObj [(''frequency'', JNum 200), (''duration'', JNum (5 / 10)),
                   (''volume'', JNum (4 / 10)), (''waveType'', JStr ''sawtooth'')]])]),
      (''success_sound'', web_audio ''chord_sequence''
         [(''chords'', JArr
            [JObj [(''notes'', JArr [JNum 659, JNum 784, JNum 988]),
                   (''duration'', JNum (2 / 10)), (''waveType'', JStr ''sine'')],
             JObj [(''notes'', JArr [JNum 784, JNum 988, JNum 1175]),
                   (''duration'', JNum (3 / 10)), (''waveType'', JStr ''sine'')]]),
          (''volume'', JNum (6 / 10))]),
      (''ambient_music'', web_audio ''filtered_noise''
         [(''duration'', JNum 30), (''volume'', JNum (1 / 10)),
          (''filterType'', JStr ''lowpass''), (''filterFrequency'', JNum 500),
          (''modulation'', JObj [(''type'', JStr ''lfo''), (''frequency'', JNum (5 / 10)),
                                 (''depth'', JNum (5 / 100))])]),
      (''transition_sound'', web_audio ''pulse_wave''
         [(''frequency'', JNum 150), (''duration'', JNum (3 / 10)),
          (''pulseWidth'', JNum (3 / 10)), (''volume'', JNum (3 / 10))])]"

definition factory_loadDefaultConfig :: "sound_factory \<Rightarrow> sound_factory" where
  "factory_loadDefaultConfig f = factory_loadConfig \<lparr>sounds = Some default_implementations\<rparr> f"

text \<open>The shapes of the implementations file: grouped by implementation type, or flat.\<close>

datatype factory_file =
    Nested "(string \<times> (string \<times> implementation) list option) list"
  | Flat "(string \<times> implementation) list option"
  | MalformedFile

definition flattenSoundConfig :: "string \<Rightarrow> implementation \<Rightarrow> implementation" where
  \<comment> \<open>\<^verbatim>\<open>{type: implType, ...soundConfig}\<close>, then \<^verbatim>\<open>parameters\<close> moved to \<^verbatim>\<open>params\<close>\<close>
  "flattenSoundConfig implType soundConfig =
     (let flattened = soundConfig\<lparr>impl_type :=
            (case impl_type soundConfig of None \<Rightarrow> Some implType | Some t \<Rightarrow> Some t)\<rparr>
      in case parameters soundConfig of
           None \<Rightarrow> flattened
         | Some ps \<Rightarrow>
             if truthy ps then flattened\<lparr>params := Some ps, parameters := None\<rparr>
             else flattened)"

definition flattenImplementations ::
    "(string \<times> (string \<times> implementation) list option) list \<Rightarrow> (string \<times> implementation) list" where
  "flattenImplementations groups =
     concat (map (\<lambda>(implType, implSounds).
       case implSounds of
         None \<Rightarrow> []
       | Some entries \<Rightarrow>
           map (\<lambda>(soundName, soundConfig). (soundName, flattenSoundConfig implType soundConfig))
             entries) groups)"

definition factory_loadConfigFromFile ::
    "(string \<Rightarrow> factory_file fetched) \<Rightarrow> string \<Rightarrow> sound_factory \<Rightarrow> sound_factory" where
  \<comment> \<open>the \<^verbatim>\<open>catch\<close> logs the error and loads the default configuration\<close>
  "factory_loadConfigFromFile net configPath f =
     (case (case net configPath of
              FetchRejected \<Rightarrow> Inl NetworkFailure
            | ResponseNotOk status \<Rightarrow> Inl (ConfigLoadFailed status)
            | JsonRejected \<Rightarrow> Inl JsonSyntaxError
            | Parsed MalformedFile \<Rightarrow> Inl TypeError
            | Parsed (Nested groups) \<Rightarrow>
                Inr (factory_loadConfig \<lparr>sounds = Some (flattenImplementations groups)\<rparr> f)
            | Parsed (Flat entries) \<Rightarrow> Inr (factory_loadConfig \<lparr>sounds = entries\<rparr> f)) of
        Inr f' \<Rightarrow> f'
      | Inl e \<Rightarrow> factory_loadDefaultConfig f)"

definition factory_initialize ::
    "(string \<Rightarrow> factory_file fetched) \<Rightarrow> factory_config init_argument \<Rightarrow> sound_factory
       \<Rightarrow> bool \<times> sound_factory" where
  \<comment> \<open>an empty path is falsy and takes the default branch\<close>
  "factory_initialize net config f =
     (case (case config of
              NoConfig \<Rightarrow> Inr (factory_loadDefaultConfig f)
            | ConfigPath p \<Rightarrow>
                if p = [] then Inr (factory_loadDefaultConfig f)
                else Inr (factory_loadConfigFromFile net p f)
            | ConfigObject c \<Rightarrow> Inr (factory_loadConfig c f)) of
        Inr f' \<Rightarrow> (True, f'\<lparr>factory_isInitialized := True\<rparr>)
      | Inl (e :: error) \<Rightarrow> (False, f))"

subsection \<open>Generating a sound\<close>

text \<open>
  A call on \<^verbatim>\<open>this.audioContext\<close>, or a read of its sample rate: a \<^verbatim>\<open>TypeError\<close> when
  the factory has no context.
\<close>

definition on_context :: "sound_factory \<Rightarrow> audio_source \<Rightarrow> error + audio_source" where
  "on_context f node =
     (case factory_audioContext f of None \<Rightarrow> Inl TypeError | Some context \<Rightarrow> Inr node)"

definition generateSilentSound :: "rat \<Rightarrow> sound_factory \<Rightarrow> error + audio_source" where
  "generateSilentSound duration f = on_context f (SilentSound duration)"

definition createSourceFromBuffer :: "string \<Rightarrow> sound_factory \<Rightarrow> error + audio_source" where
  "createSourceFromBuffer buffer f = on_context f (BufferSource buffer)"

text \<open>
  The four generators that read their parameters. The default \<^verbatim>\<open>params = {}\<close> replaces
  only \<^verbatim>\<open>undefined\<close>, and taking the properties of \<^verbatim>\<open>null\<close> apart throws a
  \<^verbatim>\<open>TypeError\<close>, before the context is used.
\<close>

definition destructured :: "json option \<Rightarrow> sound_factory \<Rightarrow> audio_source \<Rightarrow> error + audio_source" where
  "destructured ps f node = (if ps = Some JNull then Inl TypeError else on_context f node)"

definition generateSimpleTone :: "json option \<Rightarrow> sound_factory \<Rightarrow> error + audio_source" where
  "generateSimpleTone ps f = destructured ps f (SimpleTone ps)"

definition generateNoiseBurst :: "json option \<Rightarrow> sound_factory \<Rightarrow> error + audio_source" where
  "generateNoiseBurst ps f = destructured ps f (NoiseBurst ps)"

definition generateFrequencySweep :: "json option \<Rightarrow> sound_factory \<Rightarrow> error + audio_source" where
  "generateFrequencySweep ps f = destructured ps f (FrequencySweep ps)"

definition generatePulseSequence :: "json option \<Rightarrow> sound_factory \<Rightarrow> error + audio_source" where
  "generatePulseSequence ps f = destructured ps f (PulseSequence ps)"

definition tone :: "rat \<Rightarrow> rat \<Rightarrow> string \<Rightarrow> rat \<Rightarrow> audio_source" where
  \<comment> \<open>the node of \<^verbatim>\<open>generateSimpleTone({frequency, duration, waveType, volume})\<close>\<close>
  "tone frequency duration waveType vol =
     SimpleTone (Some (JObj [(''frequency'', JNum frequency), (''duration'', JNum duration),
                             (''waveType'', JStr waveType), (''volume'', JNum vol)]))"

text \<open>
  The five generators that ignore their parameters and call \<^verbatim>\<open>generateSimpleTone\<close> or
  \<^verbatim>\<open>generateNoiseBurst\<close> on an object literal.
\<close>

definition generateComplexSequence :: "json option \<Rightarrow> sound_factory \<Rightarrow> error + audio_source" where
  "generateComplexSequence ps f = on_context f (tone 800 (15 / 100) ''sine'' (4 / 10))"

definition generateEnvelopeSequence :: "json option \<Rightarrow> sound_factory \<Rightarrow> error + audio_source" where
  "generateEnvelopeSequence ps f = on_context f (tone 600 (3 / 10) ''sine'' (5 / 10))"

definition generateChordSequence :: "json option \<Rightarrow> sound_factory \<Rightarrow> error + audio_source" where
  "generateChordSequence ps f = on_context f (tone 500 (25 / 100) ''sine'' (6 / 10))"

definition generatePulseWave :: "json option \<Rightarrow> sound_factory \<Rightarrow> error + audio_source" where
  "generatePulseWave ps f = on_context f (tone 200 (2 / 10) ''square'' (4 / 10))"

definition generateFilteredNoise :: "json option \<Rightarrow> sound_factory \<Rightarrow> error + audio_source" where
  "generateFilteredNoise ps f =
     on_context f
       (NoiseBurst (Some (JObj [(''duration'', JNum 2), (''volume'', JNum (1 / 10)),
          (''filterType'', JStr ''lowpass''), (''filterFrequency'', JNum 500)])))"

definition generateWebAudio :: "implementation \<Rightarrow> sound_factory \<Rightarrow> error + audio_source" where
  \<comment> \<open>\<^verbatim>\<open>generator.replace\<close> on a generator that is missing or no string is a \<^verbatim>\<open>TypeError\<close>\<close>
  "generateWebAudio impl f =
     (case generator impl of
        None \<Rightarrow> Inl TypeError
      | Some g \<Rightarrow>
          (let normalizedGenerator = replace_first CHR ''-'' CHR ''_'' g in
           if normalizedGenerator = ''simple_tone'' then generateSimpleTone (params impl) f
           else if normalizedGenerator = ''noise_burst'' then generateNoiseBurst (params impl) f
           else if normalizedGenerator = ''frequency_sweep'' then
             generateFrequencySweep (params impl) f
           else if normalizedGenerator = ''pulse_sequence'' then
             generatePulseSequence (params impl) f
           else if normalizedGenerator = ''complex_sequence'' then
             generateComplexSequence (params impl) f
           else if normalizedGenerator = ''envelope_sequence'' then
             generateEnvelopeSequence (params impl) f
           else if normalizedGenerator = ''chord_sequence'' then
             generateChordSequence (params impl) f
           else if normalizedGenerator = ''pulse_wave'' then generatePulseWave (params impl) f
           else if normalizedGenerator = ''filtered_noise'' then
             generateFilteredNoise (params impl) f
           else Inl (UnsupportedGenerator g)))"

text \<open>
  \<^verbatim>\<open>generateFromFile\<close>: the key under which it looks for a preloaded buffer, and the path
  it fetches. A missing \<^verbatim>\<open>file\<close> is printed as \<^verbatim>\<open>undefined\<close>.
\<close>

definition file_cacheKey :: "implementation \<Rightarrow> string \<times> json option" where
  \<comment> \<open>\<^verbatim>\<open>getCacheKey(implementation.name || 'unknown', implementation.params)\<close>\<close>
  "file_cacheKey impl =
     getCacheKey (case impl_name impl of None \<Rightarrow> ''unknown''
                  | Some n \<Rightarrow> if n = [] then ''unknown'' else n) (params impl)"

definition file_fullPath :: "implementation \<Rightarrow> string" where
  \<comment> \<open>\<^verbatim>\<open>(implementation.base_path || 'assets/audio/') + implementation.file\<close>\<close>
  "file_fullPath impl =
     (case base_path impl of None \<Rightarrow> ''assets/audio/''
      | Some b \<Rightarrow> if b = [] then ''assets/audio/'' else b)
     @ (case impl_file impl of None \<Rightarrow> ''undefined'' | Some p \<Rightarrow> p)"

text \<open>
  The whole body is in a \<^verbatim>\<open>try\<close> whose \<^verbatim>\<open>catch\<close> returns
  \<^verbatim>\<open>generateSilentSound(0.1)\<close>, which throws in its turn when the factory has no context.
  The gain that the body sets on the node is not modelled; \<^verbatim>\<open>options\<close> is an object.
\<close>

definition generateFromFile ::
    "(string \<Rightarrow> audio_fetched) \<Rightarrow> implementation \<Rightarrow> sound_factory \<Rightarrow> error + audio_source" where
  "generateFromFile audio impl f =
     (case (case audioBufferPool f (file_cacheKey impl) of
              Some audioBuffer \<Rightarrow> on_context f (BufferSource audioBuffer)
            | None \<Rightarrow>
                (case audio (file_fullPath impl) of
                   AudioFetchRejected \<Rightarrow> Inl NetworkFailure
                 | AudioNotOk status \<Rightarrow> Inl (AudioLoadFailed status)
                 | DecodeRejected \<Rightarrow> Inl TypeError
                 | Decoded audioBuffer \<Rightarrow> on_context f (BufferSource audioBuffer))) of
        Inr source \<Rightarrow> Inr source
      | Inl e \<Rightarrow> generateSilentSound (1 / 10) f)"

definition generateFromThirdParty :: "implementation \<Rightarrow> sound_factory \<Rightarrow> error + audio_source" where
  "generateFromThirdParty impl f = on_context f (tone 660 (3 / 10) ''sine'' (5 / 10))"

definition generateCustom :: "implementation \<Rightarrow> sound_factory \<Rightarrow> error + audio_source" where
  "generateCustom impl f = on_context f (tone 880 (4 / 10) ''sine'' (5 / 10))"

definition generateSound ::
    "(string \<Rightarrow> audio_fetched) \<Rightarrow> string \<Rightarrow> sound_factory \<Rightarrow> error + audio_source" where
  "generateSound audio soundName f =
     (if \<not> factory_isInitialized f then Inl FactoryNotInitialized
      else
        (case implementations f soundName of
           None \<Rightarrow> generateSilentSound (1 / 10) f
         | Some impl \<Rightarrow>
             (case audioBufferPool f (getCacheKey soundName (params impl)) of
                Some buffer \<Rightarrow> createSourceFromBuffer buffer f
              | None \<Rightarrow>
                  if impl_type impl = Some ''web_audio'' then generateWebAudio impl f
                  else if impl_type impl = Some ''file'' then generateFromFile audio impl f
                  else if impl_type impl = Some ''third_party'' then generateFromThirdParty impl f
                  else if impl_type impl = Some ''custom'' then generateCustom impl f
                  else Inl (UnsupportedSoundType (impl_type impl)))))"



section \<open>The audio system\<close>

datatype context_state = Running | Suspended | Closed

text \<open>
  A call of \<^verbatim>\<open>playSound\<close> that stands at an \<^verbatim>\<open>await\<close>: at the one of
  \<^verbatim>\<open>unlockAudioContext()\<close>, or at the one of \<^verbatim>\<open>generateSound(...)\<close>, whose promise is
  settled with an error or with the node that was created.
\<close>

datatype continuation =
    AwaitUnlock string
  | AwaitGenerate string number "error + nat"

text \<open>
  The fields of \<^verbatim>\<open>AudioSystem\<close>. The three subsystems are objects once
  \<^verbatim>\<open>isInitialized\<close> is true, which is the only time the handlers read them.
  \<open>sources\<close> are the nodes created so far, a node being identified by its position;
  \<^verbatim>\<open>activeSounds\<close> is a \<^verbatim>\<open>Set\<close> of nodes, kept as the list of its members in insertion
  order, so that its \<^verbatim>\<open>size\<close> is the length; \<open>gains\<close> is the gain set on a node's gain
  node. \<open>pending\<close> are the calls of \<^verbatim>\<open>playSound\<close> that stand at an \<^verbatim>\<open>await\<close>,
  oldest first.
\<close>

record audio_system =
  audioContext :: "context_state option"
  soundFactory :: sound_factory
  soundMapping :: sound_mapping_system
  audioSettings :: audio_settings
  system_isInitialized :: bool
  activeSounds :: "nat list"
  maxConcurrentSounds :: nat
  sources :: "audio_source list"
  gains :: "nat \<rightharpoonup> number"
  pending :: "continuation list"

definition set_add :: "nat \<Rightarrow> nat list \<Rightarrow> nat list" where
  \<comment> \<open>\<^verbatim>\<open>Set.prototype.add\<close>\<close>
  "set_add x xs = (if x \<in> set xs then xs else xs @ [x])"

definition set_delete :: "nat \<Rightarrow> nat list \<Rightarrow> nat list" where
  \<comment> \<open>\<^verbatim>\<open>Set.prototype.delete\<close>\<close>
  "set_delete x xs = removeAll x xs"

definition getSoundCategory :: "string \<Rightarrow> string" where
  "getSoundCategory soundName =
     (if includes_str soundName ''click'' \<or> includes_str soundName ''hover''
          \<or> includes_str soundName ''slider'' then ''ui''
      else if includes_str soundName ''coin'' \<or> includes_str soundName ''level''
          \<or> includes_str soundName ''success'' then ''game''
      else if includes_str soundName ''machine'' \<or> includes_str soundName ''production''
        then ''production''
      else if includes_str soundName ''music'' \<or> includes_str soundName ''ambient'' then ''music''
      else ''game'')"

text \<open>
  \<^verbatim>\<open>applyVolumeToSource\<close> on a node that \<^verbatim>\<open>generateSound\<close> has just returned, which has
  no \<^verbatim>\<open>gainNode\<close> yet: it creates a gain node on the audio context and assigns the
  volume to \<^verbatim>\<open>gain.value\<close>, which throws a \<^verbatim>\<open>TypeError\<close> for a value that is not
  finite.
\<close>

definition applyVolumeToSource :: "nat \<Rightarrow> number \<Rightarrow> audio_system \<Rightarrow> error + audio_system" where
  "applyVolumeToSource source v s =
     (if audioContext s = None then Inl TypeError
      else
        (case v of
           Finite r \<Rightarrow> Inr (s\<lparr>gains := (gains s)(source \<mapsto> v)\<rparr>)
         | _ \<Rightarrow> Inl TypeError))"

text \<open>
  \<^verbatim>\<open>trackActiveSound\<close> adds the node to the set; the \<^verbatim>\<open>onended\<close> handler it installs and
  the callback it leaves with \<^verbatim>\<open>setTimeout\<close> for 10000 ms later are the next two
  functions. The handler that \<^verbatim>\<open>playSound\<close> installs afterwards also deletes the node.
\<close>

definition trackActiveSound :: "nat \<Rightarrow> string \<Rightarrow> audio_system \<Rightarrow> audio_system" where
  "trackActiveSound source soundName s = s\<lparr>activeSounds := set_add source (activeSounds s)\<rparr>"

definition onended :: "nat \<Rightarrow> audio_system \<Rightarrow> audio_system" where
  "onended source s = s\<lparr>activeSounds := set_delete source (activeSounds s)\<rparr>"

definition trackActiveSound_timeout :: "nat \<Rightarrow> audio_system \<Rightarrow> audio_system" where
  "trackActiveSound_timeout source s =
     (if source \<in> set (activeSounds s)
      then s\<lparr>activeSounds := set_delete source (activeSounds s)\<rparr>
      else s)"

text \<open>
  \<^verbatim>\<open>playSound\<close>, cut at its two \<^verbatim>\<open>await\<close>s. The result is the state and, when the call
  has ended, the boolean it returns. \<open>playSound_generate\<close> is the code between the two
  \<^verbatim>\<open>await\<close>s: it runs to the call of \<^verbatim>\<open>generateSound\<close>, whose promise is awaited even
  when it is already settled. \<open>playSound_continue\<close> is what runs when the awaited promise
  has settled; \<open>resumed\<close> says whether \<^verbatim>\<open>audioContext.resume()\<close> was fulfilled.
\<close>

definition playSound_generate ::
    "(string \<Rightarrow> audio_fetched) \<Rightarrow> string \<Rightarrow> audio_system \<Rightarrow> bool option \<times> audio_system" where
  "playSound_generate audio soundName s =
     (if audioContext s = None then (Some False, s)
      else
        let category = getSoundCategory soundName;
            v = getVolume (Some category) (audioSettings s)
        in if number_le v (Finite 0) then (Some False, s)
           else
             (case generateSound audio soundName (soundFactory s) of
                Inl e \<Rightarrow> (None, s\<lparr>pending := pending s @ [AwaitGenerate soundName v (Inl e)]\<rparr>)
              | Inr source \<Rightarrow>
                  (None, s\<lparr>sources := sources s @ [source],
                           pending := pending s @ [AwaitGenerate soundName v (Inr (length (sources s)))]\<rparr>)))"

definition playSound ::
    "(string \<Rightarrow> audio_fetched) \<Rightarrow> string \<Rightarrow> audio_system \<Rightarrow> bool option \<times> audio_system" where
  "playSound audio soundName s =
     (if \<not> system_isInitialized s then (Some False, s)
      else if audioContext s = Some Suspended
        then (None, s\<lparr>pending := pending s @ [AwaitUnlock soundName]\<rparr>)
      else playSound_generate audio soundName s)"

fun playSound_continue ::
    "(string \<Rightarrow> audio_fetched) \<Rightarrow> bool \<Rightarrow> continuation \<Rightarrow> audio_system \<Rightarrow> bool option \<times> audio_system" where
  "playSound_continue audio resumed (AwaitUnlock soundName) s =
     (if audioContext s = None \<or> \<not> resumed then (Some False, s)
      else playSound_generate audio soundName (s\<lparr>audioContext := Some Running\<rparr>))"
| "playSound_continue audio resumed (AwaitGenerate soundName v (Inl e)) s = (Some False, s)"
| "playSound_continue audio resumed (AwaitGenerate soundName v (Inr source)) s =
     (case applyVolumeToSource source v s of
        Inl e \<Rightarrow> (Some False, s)
      | Inr s' \<Rightarrow> (Some True, trackActiveSound source soundName s'))"

text \<open>
  \<^verbatim>\<open>handleAudioEvent\<close> up to its \<^verbatim>\<open>await this.playSound(...)\<close>; nothing follows the
  \<^verbatim>\<open>await\<close>. The value of \<^verbatim>\<open>playSound\<close> is not used. An error that
  \<^verbatim>\<open>getSoundForAction\<close> throws is caught and logged.
\<close>

definition handleAudioEvent ::
    "(string \<Rightarrow> audio_fetched) \<Rightarrow> string \<Rightarrow> event_data option \<Rightarrow> audio_system \<Rightarrow> audio_system" where
  "handleAudioEvent audio eventType data s =
     (if \<not> system_isInitialized s then s
      else if falsy (getVolume None (audioSettings s)) then s
      else
        (case getSoundForAction eventType data (soundMapping s) of
           Inl e \<Rightarrow> s
         | Inr None \<Rightarrow> s
         | Inr (Some soundName) \<Rightarrow>
             if soundName = [] then s
             else if length (activeSounds s) \<ge> maxConcurrentSounds s then s
             else snd (playSound audio soundName s)))"

text \<open>
  What happens to the audio system, one thing at a time on the single thread: an audio
  event is dispatched and \<^verbatim>\<open>handleAudioEvent\<close> runs to its \<^verbatim>\<open>await\<close>; the oldest
  waiting call of \<^verbatim>\<open>playSound\<close> continues; a node ends; the timeout of a node fires.
\<close>

datatype occurrence =
    Dispatch string "event_data option"
  | Continue bool
  | Ended nat
  | Timeout nat

fun occur :: "(string \<Rightarrow> audio_fetched) \<Rightarrow> audio_system \<Rightarrow> occurrence \<Rightarrow> audio_system" where
  "occur audio s (Dispatch eventType data) = handleAudioEvent audio eventType data s"
| "occur audio s (Continue resumed) =
     (case pending s of
        [] \<Rightarrow> s
      | k # ks \<Rightarrow> snd (playSound_continue audio resumed k (s\<lparr>pending := ks\<rparr>)))"
| "occur audio s (Ended source) = onended source s"
| "occur audio s (Timeout source) = trackActiveSound_timeout source s"

definition run :: "(string \<Rightarrow> audio_fetched) \<Rightarrow> occurrence list \<Rightarrow> audio_system \<Rightarrow> audio_system" where
  "run audio occurrences s = foldl (occur audio) s occurrences"

text \<open>
  An event handled to completion before anything else happens: the dispatch and then the
  two continuations that a call of \<^verbatim>\<open>playSound\<close> can need.
\<close>

definition handled_alone :: "bool \<Rightarrow> string \<Rightarrow> event_data option \<Rightarrow> occurrence list" where
  "handled_alone resumed eventType data =
     [Dispatch eventType data, Continue resumed, Continue resumed]"

text \<open>
  The audio system as \<^verbatim>\<open>initialize({})\<close> leaves it in a browser whose audio context is
  running and whose local storage holds no settings: the mapping system and the factory
  with their default configurations.
\<close>

definition no_files :: "string \<Rightarrow> 'a fetched" where
  "no_files path = ResponseNotOk 404"

definition no_audio :: "string \<Rightarrow> audio_fetched" where
  "no_audio path = AudioNotOk 404"

definition initialized_system :: audio_system where
  "initialized_system =
     \<lparr>audioContext = Some Running,
      soundFactory = snd (factory_initialize no_files NoConfig new_SoundFactory),
      soundMapping = snd (mapping_initialize no_files NoConfig new_SoundMappingSystem),
      audioSettings = default_settings,
      system_isInitialized = True,
      activeSounds = [],
      maxConcurrentSounds = 8,
      sources = [],
      gains = Map.empty,
      pending = []\<rparr>"

definition no_data :: "event_data option" where
  \<comment> \<open>the empty object\<close>
  "no_data = Some \<lparr>delta = None, quality = None, time_of_day = None, mood = None\<rparr>"

subsection \<open>Reference values and an example page\<close>

text \<open>The default slider values, as the object literal of \<^verbatim>\<open>AppState.processConfig\<close> has them.\<close>

fun default_value :: "slider_type \<Rightarrow> nat" where
  "default_value Recipe = 75"
| "default_value Production = 80"
| "default_value Quality = 90"
| "default_value Packaging = 70"
| "default_value Logistics = 85"

text \<open>
  A page to evaluate the controllers on: sliders at 50, the product card shown, two
  service cards and one emoji option.
\<close>

definition example_page :: page where
  "example_page =
     \<lparr>selectedService = ''premium'', selectedEmoji = emoji_cat, currentStep = 0,
      processConfig = (\<lambda>t. case t of Recipe \<Rightarrow> 75 | Production \<Rightarrow> 80 | Quality \<Rightarrow> 90
                                  | Packaging \<Rightarrow> 70 | Logistics \<Rightarrow> 85),
      sliders = (\<lambda>t. 50),
      sliderValues = (\<lambda>t. ''50%''), stepValues = (\<lambda>t. ''50%''),
      steps = (\<lambda>t. \<lparr>classes = {''step''}, opacity = None, background = None\<rparr>),
      connectors = (\<lambda>t. \<lparr>classes = {''connector''}, opacity = None, background = None\<rparr>),
      productOutput = {''product-output'', ''show''},
      productEmoji = [], productTitle = [], productImage = [], productionDate = [],
      expiryDate = [], trackingNumber = [], stats = (\<lambda>t. []), stats_cost = [],
      brandName = [],
      serviceCards = [{''service-card''}, {''service-card'', ''active''}],
      emojiOptions = [\<lparr>option_classes = {''emoji-option''}, data_emoji = emoji_cat\<rparr>]\<rparr>"

subsection \<open>Predicates and examples for the sound subsystem\<close>

text \<open>
  What \<^verbatim>\<open>mapping.condition && mapping.condition(data)\<close> comes to for one value of
  \<^verbatim>\<open>conditionalMappings\<close>: it is truthy, it is falsy, or it throws. The loop passes over
  an entry for which it is falsy.
\<close>

definition evaluated :: "event_data option \<Rightarrow> conditional_mapping option \<Rightarrow> error + bool" where
  "evaluated data mapping =
     (case mapping of
        None \<Rightarrow> Inl TypeError
      | Some m \<Rightarrow>
          (case condition m of
             NoCondition \<Rightarrow> Inr False
           | NotAFunction \<Rightarrow> Inl TypeError
           | Predicate holds \<Rightarrow> holds data))"

definition passed_over :: "event_data option \<Rightarrow> string \<times> conditional_mapping option \<Rightarrow> bool" where
  "passed_over data entry = (evaluated data (snd entry) = Inr False)"

text \<open>\<^verbatim>\<open>this.mappings.get(action) || null\<close>, the last line of \<^verbatim>\<open>getSoundForAction\<close>.\<close>

definition basic_lookup :: "string \<Rightarrow> sound_mapping_system \<Rightarrow> string option" where
  "basic_lookup action s =
     (case mappings s action of None \<Rightarrow> None | Some name \<Rightarrow> if name = [] then None else Some name)"

text \<open>
  The mapping system after \<^verbatim>\<open>initialize()\<close>, and event data on which two of the default
  conditions hold.
\<close>

definition default_mapping_system :: sound_mapping_system where
  "default_mapping_system = snd (mapping_initialize no_files NoConfig new_SoundMappingSystem)"

definition gain_data :: "event_data option" where
  "gain_data =
     Some \<lparr>delta = Some (Finite 5), quality = Some (Finite 95), time_of_day = None, mood = None\<rparr>"

text \<open>A condition that holds on every data, registered on a new mapping system.\<close>

definition always :: "event_data option \<Rightarrow> error + bool" where
  "always data = Inr True"

definition registered_only :: sound_mapping_system where
  "registered_only =
     addConditionalMapping ''always'' (Predicate always) ''coin_gain'' new_SoundMappingSystem"

text \<open>
  A mappings file with one action and one conditional mapping written as an entry, its
  condition a string; and the mapping system initialized from it.
\<close>

definition night_file :: mapping_file where
  "night_file =
     Full [(''ui'', \<lparr>actions = Some [(''click'', \<lparr>sound_name = Some ''click_sound''\<rparr>)]\<rparr>)]
       (Some (Direct [(''night'',
          Some \<lparr>json_condition = Some (JStr ''time_of_day == night''),
                json_sound = Some ''night_sound''\<rparr>)]))"

definition night_files :: "string \<Rightarrow> mapping_file fetched" where
  "night_files path = Parsed night_file"

definition night_system :: sound_mapping_system where
  "night_system =
     snd (mapping_initialize night_files (ConfigPath ''sound-mappings.json'') new_SoundMappingSystem)"

text \<open>Loading a file fails: the fetch is rejected, the response is not ok, or the body is no JSON.\<close>

definition load_fails :: "'a fetched \<Rightarrow> bool" where
  "load_fails r = (case r of Parsed c \<Rightarrow> False | _ \<Rightarrow> True)"



text \<open>
  A call of \<^verbatim>\<open>playSound\<close> that runs to its end with nothing in between: the call, and
  then the continuations at its two \<^verbatim>\<open>await\<close>s, as far as it has them.
\<close>

definition continued ::
    "(string \<Rightarrow> audio_fetched) \<Rightarrow> bool \<Rightarrow> bool option \<times> audio_system \<Rightarrow> bool option \<times> audio_system" where
  "continued audio resumed r =
     (case r of
        (Some b, s) \<Rightarrow> (Some b, s)
      | (None, s) \<Rightarrow>
          (case pending s of
             [] \<Rightarrow> (None, s)
           | k # ks \<Rightarrow> playSound_continue audio resumed k (s\<lparr>pending := ks\<rparr>)))"










text \<open>
  The volumes that the default settings give: the double nearest to 0.8 for no category,
  and for the category \<^verbatim>\<open>ui\<close> the double that the product of the doubles nearest to
  0.8 and to 0.7 is rounded to, which \<^verbatim>\<open>0.8 * 0.7\<close> prints as 0.5599999999999999.
\<close>

definition master_default :: number where
  "master_default = Finite (3602879701896397 / 4503599627370496)"

definition ui_default :: number where
  "ui_default = Finite (5044031582654955 / 9007199254740992)"

text \<open>
  \<open>n\<close> events dispatched one after the other before any waiting call continues, as by
  \<open>n\<close> calls of \<^verbatim>\<open>AudioEventBus.publish('button_click', {})\<close> in one loop; then the
  \<open>n\<close> calls of \<^verbatim>\<open>playSound\<close> continue.
\<close>

definition burst :: "nat \<Rightarrow> occurrence list" where
  "burst n = replicate n (Dispatch ''button_click'' no_data) @ replicate n (Continue True)"

text \<open>No call of \<^verbatim>\<open>playSound\<close> is waiting and the active set is within the cap.\<close>

definition cap_kept :: "audio_system \<Rightarrow> bool" where
  "cap_kept s \<longleftrightarrow> pending s = [] \<and> length (activeSounds s) \<le> maxConcurrentSounds s"

text \<open>
  What happens when nothing interleaves: an event handled to completion, a node that ends,
  a timeout that fires.
\<close>

datatype turn = Handle bool string "event_data option" | End nat | Expire nat

fun turn_occurrences :: "turn \<Rightarrow> occurrence list" where
  "turn_occurrences (Handle resumed eventType data) = handled_alone resumed eventType data"
| "turn_occurrences (End source) = [Ended source]"
| "turn_occurrences (Expire source) = [Timeout source]"

section \<open>Properties\<close>

subsection \<open>Decimal numerals\<close>


lemma digit_char_is_digit: "is_digit (digit_char d)"
  unfolding is_digit_def digit_char_def digits_def
  by (rule nth_mem) simp

lemma toString_nat_digits: "list_all is_digit (toString_nat n)"
  by (induction n rule: toString_nat.induct)
     (subst toString_nat.simps, simp add: digit_char_is_digit)

lemma toString_nat_length_gt: "10 ^ k \<le> n \<Longrightarrow> k < length (toString_nat n)"
proof (induction k arbitrary: n)
  case 0
  show ?case by (subst toString_nat.simps) simp
next
  case (Suc k)
  then have ge: "10 \<le> n" and "10 ^ k \<le> n div 10"
    by (auto simp: less_eq_div_iff_mult_less_eq intro: order_trans [rotated])
  with Suc.IH [of "n div 10"] show ?case
    by (subst toString_nat.simps) simp
qed

lemma toString_nat_length_le: "n < 10 ^ k \<Longrightarrow> 0 < k \<Longrightarrow> length (toString_nat n) \<le> k"
proof (induction k arbitrary: n)
  case 0
  then show ?case by simp
next
  case (Suc k)
  show ?case
  proof (cases "n < 10")
    case True
    then show ?thesis by (subst toString_nat.simps) simp
  next
    case False
    then have "0 < k" using Suc.prems by (cases k) auto
    moreover have "n div 10 < 10 ^ k" using Suc.prems by (simp add: div_less_iff_less_mult mult.commute)
    ultimately have "length (toString_nat (n div 10)) \<le> k" by (rule Suc.IH [rotated])
    with False show ?thesis by (subst toString_nat.simps) simp
  qed
qed

lemma toString_nat_defaults:
  "toString_nat 75 = ''75''" "toString_nat 80 = ''80''" "toString_nat 90 = ''90''"
  "toString_nat 70 = ''70''" "toString_nat 85 = ''85''"
  by (simp_all add: toString_nat.simps digit_char_def digits_def)

lemma slice_from_last8: "slice_from (- 8) s = drop (length s - 8) s"
  by (simp add: slice_from_def Let_def nat_diff_distrib' max_def) 

lemma minus_not_digit: "\<not> is_digit CHR ''-''"
  by (simp add: is_digit_def digits_def)

lemma last8_of_long:
  assumes "10 ^ 7 \<le> n"
  shows "is_tracking_number (''TRK-'' @ slice_from (- 8) (toString_nat n))"
    and "is_tracking_number (''TRK-'' @ slice_from (- 8) (CHR ''-'' # toString_nat n))"
proof -
  let ?t = "toString_nat n"
  have len: "7 < length ?t" using assms by (rule toString_nat_length_gt)
  have "list_all is_digit ?t" by (rule toString_nat_digits)
  then have dig: "list_all is_digit (drop (length ?t - 8) ?t)"
    by (auto simp: list_all_iff dest: in_set_dropD)
  have l8: "length (drop (length ?t - 8) ?t) = 8" using len by simp
  have "drop (length (CHR ''-'' # ?t) - 8) (CHR ''-'' # ?t) = drop (length ?t - 8) ?t"
    using len by (simp add: drop_Cons')
  then have sl: "slice_from (- 8) (CHR ''-'' # ?t) = drop (length ?t - 8) ?t"
    by (simp only: slice_from_last8)
  show "is_tracking_number (''TRK-'' @ slice_from (- 8) ?t)"
    using dig l8 by (simp add: is_tracking_number_def slice_from_last8 del: length_drop)
  show "is_tracking_number (''TRK-'' @ slice_from (- 8) (CHR ''-'' # ?t))"
    using dig l8 by (simp add: is_tracking_number_def sl del: length_drop)
qed

lemma last8_of_short:
  assumes "n < 10 ^ 7"
  shows "\<not> is_tracking_number (''TRK-'' @ slice_from (- 8) (toString_nat n))"
    and "\<not> is_tracking_number (''TRK-'' @ slice_from (- 8) (CHR ''-'' # toString_nat n))"
proof -
  let ?t = "toString_nat n"
  have len: "length ?t \<le> 7" using assms by (rule toString_nat_length_le) simp
  have "slice_from (- 8) ?t = ?t" using len by (simp add: slice_from_last8)
  then show "\<not> is_tracking_number (''TRK-'' @ slice_from (- 8) ?t)"
    using len by (simp add: is_tracking_number_def)
  have "slice_from (- 8) (CHR ''-'' # ?t) = CHR ''-'' # ?t" using len by (simp add: slice_from_last8)
  then show "\<not> is_tracking_number (''TRK-'' @ slice_from (- 8) (CHR ''-'' # ?t))"
    using minus_not_digit by (simp add: is_tracking_number_def)
qed

lemma last8_digits:
  "is_tracking_number (''TRK-'' @ slice_from (- 8) (toString_int now)) \<longleftrightarrow> 10 ^ 7 \<le> \<bar>now\<bar>"
proof (cases "10 ^ 7 \<le> \<bar>now\<bar>")
  case True
  then have "(10::nat) ^ 7 \<le> nat \<bar>now\<bar>" by simp
  from last8_of_long [OF this] True show ?thesis
    by (cases "now < 0") (simp_all add: toString_int_def)
next
  case False
  then have "nat \<bar>now\<bar> < 10 ^ 7" by simp
  from last8_of_short [OF this] False show ?thesis
    by (cases "now < 0") (simp_all add: toString_int_def)
qed


subsection \<open>The quality label\<close>

lemma labels_distinct:
  "label_excellent \<noteq> label_good" "label_good \<noteq> label_fair" "label_excellent \<noteq> label_fair"
  by (simp_all add: label_excellent_def label_good_def label_fair_def)

text \<open>
  Claim C7. \<^verbatim>\<open>Utils.getQualityLabel\<close> decides by threshold: a value of at least 80 gets
  the label for "excellent", a value from 60 up to but not including 80 the label for
  "good", and a value below 60 the label for "fair". The three labels differ
  (\<open>labels_distinct\<close>).
\<close>

theorem C7_getQualityLabel_thresholds:
  "(80 \<le> v \<longrightarrow> getQualityLabel v = label_excellent) \<and>
   (60 \<le> v \<and> v < 80 \<longrightarrow> getQualityLabel v = label_good) \<and>
   (v < 60 \<longrightarrow> getQualityLabel v = label_fair)"
  by (simp add: getQualityLabel_def)

theorem C7_witness:
  "getQualityLabel 80 = label_excellent \<and> getQualityLabel 100 = label_excellent \<and>
   getQualityLabel 60 = label_good \<and> getQualityLabel (159 / 2) = label_good \<and>
   getQualityLabel (119 / 2) = label_fair \<and> getQualityLabel 0 = label_fair"
  using C7_getQualityLabel_thresholds [of 80] C7_getQualityLabel_thresholds [of 100]
    C7_getQualityLabel_thresholds [of 60] C7_getQualityLabel_thresholds [of "159 / 2"]
    C7_getQualityLabel_thresholds [of "119 / 2"] C7_getQualityLabel_thresholds [of 0]
  by simp

subsection \<open>Moving a slider\<close>

text \<open>
  Claim C8. For every slider type \<open>t\<close> and every value \<open>v\<close> (in particular every \<open>v\<close>
  from 0 to 100), moving slider \<open>t\<close> to \<open>v\<close> sets the text of its value display and of its
  step display to the decimal numeral of \<open>v\<close> followed by \<^verbatim>\<open>%\<close>, and the opacity of its
  step and of its connector to \<open>v / 100\<close>; the state keeps \<open>v\<close> under \<open>t\<close>.
\<close>

theorem C8_moveSlider:
  "sliderValues (moveSlider t v p) t = toString_nat v @ ''%'' \<and>
   stepValues (moveSlider t v p) t = toString_nat v @ ''%'' \<and>
   opacity (steps (moveSlider t v p) t) = Some (of_nat v / 100) \<and>
   opacity (connectors (moveSlider t v p) t) = Some (of_nat v / 100) \<and>
   processConfig (moveSlider t v p) t = int v"
  by (simp add: moveSlider_def updateSlider_def updateConnectorColor_def Let_def)

theorem C8_witness:
  "sliderValues (moveSlider Quality 75 example_page) Quality = ''75%'' \<and>
   stepValues (moveSlider Quality 75 example_page) Quality = ''75%'' \<and>
   opacity (steps (moveSlider Quality 75 example_page) Quality) = Some (3 / 4) \<and>
   opacity (connectors (moveSlider Quality 75 example_page) Quality) = Some (3 / 4)"
  using C8_moveSlider [of Quality 75 example_page] by (simp add: toString_nat_defaults)

lemma moveSlider_others:
  "t' \<noteq> t \<Longrightarrow>
   sliderValues (moveSlider t v p) t' = sliderValues p t' \<and>
   stepValues (moveSlider t v p) t' = stepValues p t' \<and>
   steps (moveSlider t v p) t' = steps p t' \<and>
   connectors (moveSlider t v p) t' = connectors p t' \<and>
   processConfig (moveSlider t v p) t' = processConfig p t'"
  by (simp add: moveSlider_def updateSlider_def updateConnectorColor_def Let_def)

subsection \<open>The production animation and the tracking number\<close>

lemma showFinalProduct_fields:
  "''show'' \<in> productOutput (showFinalProduct isoDate now p)"
  "trackingNumber (showFinalProduct isoDate now p) = ''TRK-'' @ slice_from (- 8) (toString_int now)"
  by (simp_all add: showFinalProduct_def updateProductInfo_def generateTrackingNumber_def
        updateStats_def updateDateInfo_def Let_def)

lemma processInterval_step:
  "currentStep p < 5 \<Longrightarrow>
   \<exists>p'. processInterval isoDate now p = Inr (False, p') \<and> currentStep p' = Suc (currentStep p)"
proof -
  assume "currentStep p < 5"
  then consider "currentStep p = 0" | "currentStep p = 1" | "currentStep p = 2"
    | "currentStep p = 3" | "currentStep p = 4" by linarith
  then show ?thesis
    by cases (simp_all add: processInterval_def activateStep_def getTypeFromStep_def Let_def)
qed

lemma processInterval_done:
  "currentStep p = 5 \<Longrightarrow> processInterval isoDate now p = Inr (True, showFinalProduct isoDate now p)"
  by (simp add: processInterval_def)

lemma runInterval_from:
  "currentStep p + k = 5 \<Longrightarrow>
   \<exists>p'. runInterval (Suc k) isoDate now p = Inr (True, showFinalProduct isoDate now p')"
proof (induction k arbitrary: p)
  case 0
  then show ?case by (auto simp: processInterval_done)
next
  case (Suc k)
  then have "currentStep p < 5" by simp
  from processInterval_step [OF this, of isoDate now] obtain p1
    where p1: "processInterval isoDate now p = Inr (False, p1)" "currentStep p1 = Suc (currentStep p)"
    by blast
  with Suc.prems have "currentStep p1 + k = 5" by simp
  from Suc.IH [OF this] obtain p' where
    "runInterval (Suc k) isoDate now p1 = Inr (True, showFinalProduct isoDate now p')" by blast
  with p1 show ?case by auto
qed

text \<open>
  Claim C5, as amended. The sixth run of the interval's callback after
  \<^verbatim>\<open>startProductionAnimation\<close> ends the five-step animation: it clears the interval and
  shows the product card, whose tracking number is \<^verbatim>\<open>TRK-\<close> followed by the last eight
  characters of the decimal numeral of \<^verbatim>\<open>Date.now()\<close>. That number has the form
  \<^verbatim>\<open>TRK-########\<close> exactly when the clock reads at least \<open>10\<^sup>7\<close> milliseconds from the
  epoch in either direction, which holds for every clock reading later than
  02:46:40 UTC on 1 January 1970.
\<close>

theorem C5_tracking_number_of_clock:
  "\<exists>p'. runInterval 6 isoDate now (startProductionAnimation p) = Inr (True, p') \<and>
     ''show'' \<in> productOutput p' \<and>
     trackingNumber p' = ''TRK-'' @ slice_from (- 8) (toString_int now) \<and>
     (is_tracking_number (trackingNumber p') \<longleftrightarrow> 10 ^ 7 \<le> \<bar>now\<bar>)"
proof -
  have "currentStep (startProductionAnimation p) + 5 = 5"
    by (simp add: startProductionAnimation_def)
  from runInterval_from [OF this, of isoDate now] obtain p0 where
    "runInterval 6 isoDate now (startProductionAnimation p)
       = Inr (True, showFinalProduct isoDate now p0)"
    by (auto simp: eval_nat_numeral)
  then show ?thesis
    using last8_digits [of now] by (simp add: showFinalProduct_fields)
qed

theorem C5_witness:
  "\<exists>p'. runInterval 6 ''2025-11-23'' 1763856000123 (startProductionAnimation example_page)
          = Inr (True, p') \<and>
     ''show'' \<in> productOutput p' \<and> trackingNumber p' = ''TRK-56000123'' \<and>
     is_tracking_number (trackingNumber p')"
proof -
  have "slice_from (- 8) (toString_int 1763856000123) = ''56000123''"
    by (simp add: slice_from_def toString_int_def toString_nat.simps digit_char_def digits_def)
  with C5_tracking_number_of_clock [of "''2025-11-23''" 1763856000123 example_page]
  show ?thesis by auto
qed

text \<open>
  With the clock five seconds after the epoch the numeral has four digits, and the tracking
  number is \<^verbatim>\<open>TRK-5000\<close>.
\<close>

theorem C5_counterexample:
  "trackingNumber (showFinalProduct ''1970-01-01'' 5000 example_page) = ''TRK-5000'' \<and>
   \<not> is_tracking_number (trackingNumber (showFinalProduct ''1970-01-01'' 5000 example_page))"
  by (simp add: showFinalProduct_fields slice_from_def toString_int_def toString_nat.simps
        digit_char_def digits_def is_tracking_number_def)

subsection \<open>Resetting the system\<close>

lemma resetSliders_fields:
  "sliders (resetSliders p) t = default_value t"
  "processConfig (resetSliders p) t = int (default_value t)"
  "sliderValues (resetSliders p) t = toString_nat (default_value t) @ ''%''"
  "stepValues (resetSliders p) t = toString_nat (default_value t) @ ''%''"
  "opacity (steps (resetSliders p) t) = Some (of_nat (default_value t) / 100)"
  "opacity (connectors (resetSliders p) t) = Some (of_nat (default_value t) / 100)"
  "productOutput (resetSliders p) = productOutput p"
  by (cases t; simp add: resetSliders_def initialize_sliders_def updateSlider_def
        updateConnectorColor_def Let_def)+

lemma resetProcess_body_fields:
  assumes "getTypeFromStep i = Some t"
  shows "\<exists>p'. resetProcess_body i p = Inr p' \<and>
           sliders p' = sliders p \<and> processConfig p' = processConfig p \<and>
           sliderValues p' = sliderValues p \<and> stepValues p' = stepValues p \<and>
           productOutput p' = productOutput p \<and>
           opacity (steps p' t) = Some (of_int (processConfig p t) / 100) \<and>
           opacity (connectors p' t) = Some (of_int (processConfig p t) / 100) \<and>
           (\<forall>t'. t' \<noteq> t \<longrightarrow> opacity (steps p' t') = opacity (steps p t') \<and>
                            opacity (connectors p' t') = opacity (connectors p t'))"
  using assms by (simp add: resetProcess_body_def updateConnectorColor_def Let_def)

lemma resetProcess_fields:
  "\<exists>p'. resetProcess p = Inr p' \<and>
     sliders p' = sliders p \<and> processConfig p' = processConfig p \<and>
     sliderValues p' = sliderValues p \<and> stepValues p' = stepValues p \<and>
     productOutput p' = productOutput p \<and>
     (\<forall>t. opacity (steps p' t) = Some (of_int (processConfig p t) / 100) \<and>
          opacity (connectors p' t) = Some (of_int (processConfig p t) / 100))"
proof -
  obtain p1 where p1: "resetProcess_body 1 p = Inr p1"
      "sliders p1 = sliders p" "processConfig p1 = processConfig p"
      "sliderValues p1 = sliderValues p" "stepValues p1 = stepValues p"
      "productOutput p1 = productOutput p"
      "opacity (steps p1 Recipe) = Some (of_int (processConfig p Recipe) / 100)"
      "opacity (connectors p1 Recipe) = Some (of_int (processConfig p Recipe) / 100)"
    using resetProcess_body_fields [of 1 Recipe p] by (auto simp: getTypeFromStep_def)
  obtain p2 where p2: "resetProcess_body 2 p1 = Inr p2"
      "sliders p2 = sliders p" "processConfig p2 = processConfig p"
      "sliderValues p2 = sliderValues p" "stepValues p2 = stepValues p"
      "productOutput p2 = productOutput p"
      "opacity (steps p2 Recipe) = Some (of_int (processConfig p Recipe) / 100)"
      "opacity (connectors p2 Recipe) = Some (of_int (processConfig p Recipe) / 100)"
      "opacity (steps p2 Production) = Some (of_int (processConfig p Production) / 100)"
      "opacity (connectors p2 Production) = Some (of_int (processConfig p Production) / 100)"
    using resetProcess_body_fields [of 2 Production p1] p1 by (auto simp: getTypeFromStep_def)
  obtain p3 where p3: "resetProcess_body 3 p2 = Inr p3"
      "sliders p3 = sliders p" "processConfig p3 = processConfig p"
      "sliderValues p3 = sliderValues p" "stepValues p3 = stepValues p"
      "productOutput p3 = productOutput p"
      "opacity (steps p3 Recipe) = Some (of_int (processConfig p Recipe) / 100)"
      "opacity (connectors p3 Recipe) = Some (of_int (processConfig p Recipe) / 100)"
      "opacity (steps p3 Production) = Some (of_int (processConfig p Production) / 100)"
      "opacity (connectors p3 Production) = Some (of_int (processConfig p Production) / 100)"
      "opacity (steps p3 Quality) = Some (of_int (processConfig p Quality) / 100)"
      "opacity (connectors p3 Quality) = Some (of_int (processConfig p Quality) / 100)"
    using resetProcess_body_fields [of 3 Quality p2] p2 by (auto simp: getTypeFromStep_def)
  obtain p4 where p4: "resetProcess_body 4 p3 = Inr p4"
      "sliders p4 = sliders p" "processConfig p4 = processConfig p"
      "sliderValues p4 = sliderValues p" "stepValues p4 = stepValues p"
      "productOutput p4 = productOutput p"
      "opacity (steps p4 Recipe) = Some (of_int (processConfig p Recipe) / 100)"
      "opacity (connectors p4 Recipe) = Some (of_int (processConfig p Recipe) / 100)"
      "opacity (steps p4 Production) = Some (of_int (processConfig p Production) / 100)"
      "opacity (connectors p4 Production) = Some (of_int (processConfig p Production) / 100)"
      "opacity (steps p4 Quality) = Some (of_int (processConfig p Quality) / 100)"
      "opacity (connectors p4 Quality) = Some (of_int (processConfig p Quality) / 100)"
      "opacity (steps p4 Packaging) = Some (of_int (processConfig p Packaging) / 100)"
      "opacity (connectors p4 Packaging) = Some (of_int (processConfig p Packaging) / 100)"
    using resetProcess_body_fields [of 4 Packaging p3] p3 by (auto simp: getTypeFromStep_def)
  obtain p5 where p5: "resetProcess_body 5 p4 = Inr p5"
      "sliders p5 = sliders p" "processConfig p5 = processConfig p"
      "sliderValues p5 = sliderValues p" "stepValues p5 = stepValues p"
      "productOutput p5 = productOutput p"
      "opacity (steps p5 Recipe) = Some (of_int (processConfig p Recipe) / 100)"
      "opacity (connectors p5 Recipe) = Some (of_int (processConfig p Recipe) / 100)"
      "opacity (steps p5 Production) = Some (of_int (processConfig p Production) / 100)"
      "opacity (connectors p5 Production) = Some (of_int (processConfig p Production) / 100)"
      "opacity (steps p5 Quality) = Some (of_int (processConfig p Quality) / 100)"
      "opacity (connectors p5 Quality) = Some (of_int (processConfig p Quality) / 100)"
      "opacity (steps p5 Packaging) = Some (of_int (processConfig p Packaging) / 100)"
      "opacity (connectors p5 Packaging) = Some (of_int (processConfig p Packaging) / 100)"
      "opacity (steps p5 Logistics) = Some (of_int (processConfig p Logistics) / 100)"
      "opacity (connectors p5 Logistics) = Some (of_int (processConfig p Logistics) / 100)"
    using resetProcess_body_fields [of 5 Logistics p4] p4 by (auto simp: getTypeFromStep_def)
  have run: "resetProcess p = Inr p5"
    using p1(1) p2(1) p3(1) p4(1) p5(1) by (simp add: resetProcess_def)
  have "opacity (steps p5 t) = Some (of_int (processConfig p t) / 100) \<and>
        opacity (connectors p5 t) = Some (of_int (processConfig p t) / 100)" for t
    by (cases t) (simp_all add: p5)
  with run p5 show ?thesis by simp
qed

lemma resetUIState_ok:
  "serviceCards p \<noteq> [] \<Longrightarrow> emojiOptions p \<noteq> [] \<Longrightarrow> \<exists>p'. resetUIState p = Inr p'"
  by (cases "serviceCards p"; cases "emojiOptions p") (simp_all add: resetUIState_def)

text \<open>
  Claim C6. On a page that has a service card and an emoji option, \<^verbatim>\<open>resetSystem\<close>
  returns normally; afterwards every slider holds its default value (75, 80, 90, 70, 85),
  the state, both percentage displays and the opacity of each step and connector hold that
  value again, and the product card no longer has the class \<^verbatim>\<open>show\<close>.
\<close>

theorem C6_resetSystem:
  assumes "serviceCards p \<noteq> []" and "emojiOptions p \<noteq> []"
  shows "\<exists>p'. resetSystem p = Inr p' \<and>
    (\<forall>t. sliders p' t = default_value t \<and>
         processConfig p' t = int (default_value t) \<and>
         sliderValues p' t = toString_nat (default_value t) @ ''%'' \<and>
         stepValues p' t = toString_nat (default_value t) @ ''%'' \<and>
         opacity (steps p' t) = Some (of_nat (default_value t) / 100) \<and>
         opacity (connectors p' t) = Some (of_nat (default_value t) / 100)) \<and>
    ''show'' \<notin> productOutput p'"
proof -
  let ?p1 = "p\<lparr>selectedService := ''premium'', currentStep := 0\<rparr>"
  from assms obtain p2 where p2: "resetUIState ?p1 = Inr p2"
    using resetUIState_ok [of ?p1] by auto
  obtain p3 where p3: "resetProcess (resetSliders p2) = Inr p3"
    and same: "sliders p3 = sliders (resetSliders p2)"
      "processConfig p3 = processConfig (resetSliders p2)"
      "sliderValues p3 = sliderValues (resetSliders p2)"
      "stepValues p3 = stepValues (resetSliders p2)"
    and op: "\<And>t. opacity (steps p3 t) = Some (of_int (processConfig (resetSliders p2) t) / 100)"
      "\<And>t. opacity (connectors p3 t) = Some (of_int (processConfig (resetSliders p2) t) / 100)"
    using resetProcess_fields [of "resetSliders p2"] by blast
  have "resetSystem p = Inr (p3\<lparr>productOutput := productOutput p3 - {''show''}\<rparr>)"
    by (simp add: resetSystem_def p2 p3)
  then show ?thesis
    by (simp add: same op resetSliders_fields)
qed

theorem C6_witness:
  "\<exists>p'. resetSystem example_page = Inr p' \<and>
     sliders p' Recipe = 75 \<and> sliders p' Production = 80 \<and> sliders p' Quality = 90 \<and>
     sliders p' Packaging = 70 \<and> sliders p' Logistics = 85 \<and>
     sliderValues p' Recipe = ''75%'' \<and> stepValues p' Logistics = ''85%'' \<and>
     opacity (steps p' Quality) = Some (9 / 10) \<and>
     opacity (connectors p' Packaging) = Some (7 / 10) \<and>
     ''show'' \<in> productOutput example_page \<and> ''show'' \<notin> productOutput p'"
proof -
  have "serviceCards example_page \<noteq> []" "emojiOptions example_page \<noteq> []"
    by (simp_all add: example_page_def)
  from C6_resetSystem [OF this] obtain p' where "resetSystem example_page = Inr p'"
    and all: "\<And>t. sliders p' t = default_value t \<and>
         processConfig p' t = int (default_value t) \<and>
         sliderValues p' t = toString_nat (default_value t) @ ''%'' \<and>
         stepValues p' t = toString_nat (default_value t) @ ''%'' \<and>
         opacity (steps p' t) = Some (of_nat (default_value t) / 100) \<and>
         opacity (connectors p' t) = Some (of_nat (default_value t) / 100)"
    and "''show'' \<notin> productOutput p'" by blast
  then show ?thesis
    using all [of Recipe] all [of Production] all [of Quality] all [of Packaging] all [of Logistics]
    by (simp add: toString_nat_defaults example_page_def)
qed

subsection \<open>Numbers\<close>

text \<open>The doubles that the decimal literals of the default settings denote.\<close>

lemma literal_8: "literal (8 / 10) = Finite (3602879701896397 / 4503599627370496)"
  unfolding literal_def by code_simp

lemma literal_7: "literal (7 / 10) = Finite (3152519739159347 / 4503599627370496)"
  unfolding literal_def by code_simp

lemma literal_6: "literal (6 / 10) = Finite (5404319552844595 / 9007199254740992)"
  unfolding literal_def by code_simp

lemma literal_5: "literal (5 / 10) = Finite (1 / 2)"
  unfolding literal_def by code_simp


lemma literal_normal:
  "literal (4 / 5) = Finite (3602879701896397 / 4503599627370496)"
  "literal (3 / 5) = Finite (5404319552844595 / 9007199254740992)"
  "literal (1 / 2) = Finite (1 / 2)"
  using literal_8 literal_6 literal_5 by simp_all

lemma product_8_7:
  "multiply (Finite (3602879701896397 / 4503599627370496)) (Finite (3152519739159347 / 4503599627370496))
     = Finite (5044031582654955 / 9007199254740992)"
  by code_simp


lemma clamp01_clamped: "clamp01 v = clamped v"
  by (cases v) (auto simp: clamp01_def clamped_def Math_min_def Math_max_def)





subsection \<open>Audio settings\<close>


lemma get_property_Own: "get_property m k = Own v \<longleftrightarrow> m k = Some v"
  by (simp add: get_property_def split: option.split)

lemma setCategoryVolume_own:
  "setCategoryVolume k v s =
     (case categories s k of
        Some cs \<Rightarrow> s\<lparr>categories := (categories s)(k \<mapsto> cs\<lparr>volume := clamp01 v\<rparr>)\<rparr>
      | None \<Rightarrow> s)"
  by (simp add: setCategoryVolume_def get_property_def split: option.split)












lemma settings_after_example:
  "masterVolume (settings_after [SetMasterVolume (Finite 3), SetCategoryVolume ''ui'' NegInfinity]) = Finite 1"
  "categories (settings_after [SetMasterVolume (Finite 3), SetCategoryVolume ''ui'' NegInfinity]) ''ui''
     = Some \<lparr>volume = Finite 0, enabled = True\<rparr>"
  "global_enabled (settings_after [SetMasterVolume (Finite 3), SetCategoryVolume ''ui'' NegInfinity])"
  "\<not> mute (settings_after [SetMasterVolume (Finite 3), SetCategoryVolume ''ui'' NegInfinity])"
  by (simp_all add: settings_after_def setMasterVolume_def setCategoryVolume_own clamp01_clamped
        clamped_def default_settings_def default_categories_def)






subsection \<open>Sound for an action\<close>

lemma first_condition_step:
  "first_condition data ((n, m) # rest) =
     (case evaluated data m of
        Inl e \<Rightarrow> Inl e
      | Inr True \<Rightarrow> Inr (Some (case m of Some x \<Rightarrow> sound x | None \<Rightarrow> None))
      | Inr False \<Rightarrow> first_condition data rest)"
  by (cases m) (auto simp: evaluated_def split: condition.splits sum.splits bool.splits)

lemma first_condition_none:
  "list_all (passed_over data) cms \<Longrightarrow> first_condition data cms = Inr None"
proof (induction cms)
  case Nil
  then show ?case by simp
next
  case (Cons a cms)
  obtain n m where a: "a = (n, m)" by (cases a)
  from Cons show ?case unfolding a by (simp add: first_condition_step passed_over_def)
qed

lemma first_condition_first:
  "list_all (passed_over data) before \<Longrightarrow>
   first_condition data (before @ (n, m) # after) = first_condition data ((n, m) # after)"
proof (induction before)
  case Nil
  then show ?case by simp
next
  case (Cons a before)
  obtain n' m' where a: "a = (n', m')" by (cases a)
  from Cons show ?case unfolding a by (simp add: first_condition_step passed_over_def)
qed

lemma split_at_first:
  "\<not> list_all (passed_over data) cms \<Longrightarrow>
   \<exists>before n m after. cms = before @ (n, m) # after \<and>
      list_all (passed_over data) before \<and> evaluated data m \<noteq> Inr False"
proof (induction cms)
  case Nil
  then show ?case by simp
next
  case (Cons a cms)
  obtain n m where a: "a = (n, m)" by (cases a)
  show ?case
  proof (cases "passed_over data a")
    case False
    then have "a # cms = [] @ (n, m) # cms \<and> list_all (passed_over data) [] \<and>
        evaluated data m \<noteq> Inr False"
      by (simp add: a passed_over_def)
    then show ?thesis by blast
  next
    case True
    with Cons.prems have "\<not> list_all (passed_over data) cms" by simp
    from Cons.IH [OF this] obtain before n' m' after where
      "cms = before @ (n', m') # after" "list_all (passed_over data) before"
      "evaluated data m' \<noteq> Inr False"
      by blast
    with True have "a # cms = (a # before) @ (n', m') # after \<and>
       list_all (passed_over data) (a # before) \<and> evaluated data m' \<noteq> Inr False"
      by simp
    then show ?thesis by blast
  qed
qed

text \<open>
  Claim C10, as amended. Before \<^verbatim>\<open>initialize\<close> has succeeded, \<^verbatim>\<open>getSoundForAction\<close>
  returns \<^verbatim>\<open>null\<close>. On an initialized mapping system, for every action and every data,
  it goes through the conditional mappings in the order of their registration and passes
  over those whose condition is missing or falsy or returns a falsy value on the data. If
  the conditional mappings are \<open>before\<close>, then \<open>(n, m)\<close>, then \<open>after\<close>, and those of
  \<open>before\<close> are passed over: if the condition of \<open>m\<close> is a function that holds on the
  data, the sound of \<open>m\<close> is returned, whatever the action and whether or not the action
  has a basic mapping; if \<open>m\<close> is \<^verbatim>\<open>null\<close>, or its condition is a truthy value that is no
  function, or a function that throws, \<^verbatim>\<open>getSoundForAction\<close> throws. The basic mapping
  (or \<^verbatim>\<open>null\<close>) is returned when every conditional mapping is passed over.
\<close>

theorem C10_conditional_first:
  "(\<not> mapping_isInitialized s \<longrightarrow> getSoundForAction action data s = Inr None) \<and>
   (mapping_isInitialized s \<and> conditionalMappings s = before @ (n, m) # after \<and>
    list_all (passed_over data) before \<longrightarrow>
      (m = Some x \<and> evaluated data m = Inr True \<longrightarrow>
         getSoundForAction action data s = Inr (sound x)) \<and>
      (evaluated data m = Inl e \<longrightarrow> getSoundForAction action data s = Inl e)) \<and>
   (mapping_isInitialized s \<and> list_all (passed_over data) (conditionalMappings s) \<longrightarrow>
      getSoundForAction action data s = Inr (basic_lookup action s))"
proof -
  have a: "\<not> mapping_isInitialized s \<longrightarrow> getSoundForAction action data s = Inr None"
    by (simp add: getSoundForAction_def)
  have b: "getSoundForAction action data s = Inr (sound x)"
    if "mapping_isInitialized s" "conditionalMappings s = before @ (n, m) # after"
      "list_all (passed_over data) before" "m = Some x" "evaluated data m = Inr True"
    using that by (simp add: getSoundForAction_def first_condition_first first_condition_step)
  have c: "getSoundForAction action data s = Inl e"
    if "mapping_isInitialized s" "conditionalMappings s = before @ (n, m) # after"
      "list_all (passed_over data) before" "evaluated data m = Inl e"
    using that by (simp add: getSoundForAction_def first_condition_first first_condition_step)
  have d: "getSoundForAction action data s = Inr (basic_lookup action s)"
    if "mapping_isInitialized s" "list_all (passed_over data) (conditionalMappings s)"
    using that
    by (simp add: getSoundForAction_def first_condition_none basic_lookup_def split: option.split)
  from a b c d show ?thesis by blast
qed

lemma uninitialized_null:
  "\<not> mapping_isInitialized s \<Longrightarrow> getSoundForAction action data s = Inr None"
  by (simp add: getSoundForAction_def)

lemma default_mapping_system_fields:
  "mapping_isInitialized default_mapping_system"
  "conditionalMappings default_mapping_system = default_conditional_mappings"
  "mappings default_mapping_system ''button_click'' = Some ''click_sound''"
  "mappings default_mapping_system ''no_such_action'' = None"
  by (simp_all add: default_mapping_system_def mapping_initialize_def mapping_loadDefaultConfig_def
        loadConfig_def new_SoundMappingSystem_def default_mappings_def
        default_conditional_mappings_def)

lemma default_conditions_on_gain:
  "money_increased gain_data = Inr True" "high_quality gain_data = Inr True"
  by (simp_all add: money_increased_def high_quality_def reading_def gain_data_def)

lemma default_conditions_on_no_data:
  "list_all (passed_over no_data) default_conditional_mappings"
  by (simp add: default_conditional_mappings_def passed_over_def evaluated_def no_data_def
        money_increased_def money_decreased_def high_quality_def low_quality_def reading_def)

lemma default_conditions_on_null: "money_increased None = Inl TypeError"
  by (simp add: money_increased_def reading_def)

lemma night_system_fields:
  "mapping_isInitialized night_system"
  "conditionalMappings night_system =
     [(''night'', Some \<lparr>condition = NotAFunction, sound = Some ''night_sound''\<rparr>)]"
  "mappings night_system ''ui_click'' = Some ''click_sound''"
  by (simp_all add: night_system_def night_files_def night_file_def mapping_initialize_def
        mapping_loadConfigFromFile_def loadConfig_def flattenMappings_def
        flattenConditionalMappings_def copied_def new_SoundMappingSystem_def)

lemma registered_only_fields:
  "\<not> mapping_isInitialized registered_only"
  "conditionalMappings registered_only =
     [(''always'', Some \<lparr>condition = Predicate always, sound = Some ''coin_gain''\<rparr>)]"
  by (simp_all add: registered_only_def addConditionalMapping_def new_SoundMappingSystem_def)

theorem C10_witness:
  "getSoundForAction ''button_click'' gain_data default_mapping_system = Inr (Some ''coin_gain'') \<and>
   mappings default_mapping_system ''button_click'' = Some ''click_sound'' \<and>
   getSoundForAction ''button_click'' no_data default_mapping_system = Inr (Some ''click_sound'') \<and>
   getSoundForAction ''no_such_action'' no_data default_mapping_system = Inr None \<and>
   getSoundForAction ''button_click'' None default_mapping_system = Inl TypeError \<and>
   getSoundForAction ''ui_click'' no_data night_system = Inl TypeError \<and>
   getSoundForAction ''button_click'' gain_data registered_only = Inr None"
proof -
  let ?s = default_mapping_system
  let ?first = "\<lparr>condition = Predicate money_increased, sound = Some ''coin_gain''\<rparr>"
  let ?night = "\<lparr>condition = NotAFunction, sound = Some ''night_sound''\<rparr>"
  have c: "conditionalMappings ?s =
      [] @ (''money_increased'', Some ?first) # tl default_conditional_mappings"
    by (simp add: default_mapping_system_fields default_conditional_mappings_def)
  have n: "conditionalMappings night_system = [] @ (''night'', Some ?night) # []"
    by (simp add: night_system_fields)
  from C10_conditional_first [where s = ?s and before = "[]" and n = "''money_increased''"
      and m = "Some ?first" and x = ?first and after = "tl default_conditional_mappings"
      and data = gain_data and action = "''button_click''" and e = TypeError] c
  have 1: "getSoundForAction ''button_click'' gain_data ?s = Inr (Some ''coin_gain'')"
    by (simp add: default_mapping_system_fields evaluated_def default_conditions_on_gain)
  from C10_conditional_first [where s = ?s and data = no_data and action = "''button_click''"
      and before = "[]" and n = "''money_increased''" and m = "Some ?first" and x = ?first
      and after = "tl default_conditional_mappings" and e = TypeError]
  have 2: "getSoundForAction ''button_click'' no_data ?s = Inr (Some ''click_sound'')"
    by (simp add: default_mapping_system_fields default_conditions_on_no_data basic_lookup_def)
  from C10_conditional_first [where s = ?s and data = no_data and action = "''no_such_action''"
      and before = "[]" and n = "''money_increased''" and m = "Some ?first" and x = ?first
      and after = "tl default_conditional_mappings" and e = TypeError]
  have 3: "getSoundForAction ''no_such_action'' no_data ?s = Inr None"
    by (simp add: default_mapping_system_fields default_conditions_on_no_data basic_lookup_def)
  from C10_conditional_first [where s = ?s and before = "[]" and n = "''money_increased''"
      and m = "Some ?first" and x = ?first and after = "tl default_conditional_mappings"
      and data = None and action = "''button_click''" and e = TypeError] c
  have 4: "getSoundForAction ''button_click'' None ?s = Inl TypeError"
    by (simp add: default_mapping_system_fields evaluated_def default_conditions_on_null)
  from C10_conditional_first [where s = night_system and before = "[]" and n = "''night''"
      and m = "Some ?night" and x = ?night and after = "[]"
      and data = no_data and action = "''ui_click''" and e = TypeError] n
  have 5: "getSoundForAction ''ui_click'' no_data night_system = Inl TypeError"
    by (simp add: night_system_fields evaluated_def)
  from C10_conditional_first [where s = registered_only and data = gain_data
      and action = "''button_click''" and before = "[]" and n = "''always''"
      and m = "Some \<lparr>condition = Predicate always, sound = Some ''coin_gain''\<rparr>"
      and x = "\<lparr>condition = Predicate always, sound = Some ''coin_gain''\<rparr>"
      and after = "[]" and e = TypeError]
  have 6: "getSoundForAction ''button_click'' gain_data registered_only = Inr None"
    by (simp add: registered_only_fields)
  from 1 2 3 4 5 6 show ?thesis by (simp add: default_mapping_system_fields)
qed

text \<open>
  Three cases in which the condition of a registered conditional mapping holds, or is
  there, and its sound is not returned. Before \<^verbatim>\<open>initialize\<close> has succeeded the guard at
  the head of \<^verbatim>\<open>getSoundForAction\<close> returns \<^verbatim>\<open>null\<close>. After \<^verbatim>\<open>initialize()\<close>, on data
  with \<^verbatim>\<open>delta\<close> 5 and \<^verbatim>\<open>quality\<close> 95 the condition of \<^verbatim>\<open>high_quality\<close> holds, and
  the sound returned is that of \<^verbatim>\<open>money_increased\<close>, which comes first. After
  \<^verbatim>\<open>initialize\<close> from a file whose conditional mapping has a string as its condition,
  \<^verbatim>\<open>getSoundForAction\<close> throws a \<^verbatim>\<open>TypeError\<close> for every action.
\<close>

theorem C10_counterexample:
  "evaluated gain_data (Some \<lparr>condition = Predicate always, sound = Some ''coin_gain''\<rparr>) = Inr True \<and>
   conditionalMappings registered_only =
     [(''always'', Some \<lparr>condition = Predicate always, sound = Some ''coin_gain''\<rparr>)] \<and>
   getSoundForAction ''button_click'' gain_data registered_only = Inr None \<and>
   mapping_isInitialized default_mapping_system \<and>
   map_of (conditionalMappings default_mapping_system) ''high_quality'' =
     Some (Some \<lparr>condition = Predicate high_quality, sound = Some ''high_quality_sound''\<rparr>) \<and>
   evaluated gain_data
     (Some \<lparr>condition = Predicate high_quality, sound = Some ''high_quality_sound''\<rparr>) = Inr True \<and>
   getSoundForAction ''button_click'' gain_data default_mapping_system = Inr (Some ''coin_gain'') \<and>
   mapping_isInitialized night_system \<and>
   map_of (conditionalMappings night_system) ''night'' =
     Some (Some \<lparr>condition = NotAFunction, sound = Some ''night_sound''\<rparr>) \<and>
   getSoundForAction ''ui_click'' no_data night_system = Inl TypeError"
  by (simp add: evaluated_def always_def registered_only_fields default_mapping_system_fields
        night_system_fields getSoundForAction_def default_conditional_mappings_def
        default_conditions_on_gain)

subsection \<open>Initialization when a configuration file cannot be loaded\<close>

lemma factory_file_failure:
  "load_fails (net p) \<or> net p = Parsed MalformedFile \<Longrightarrow>
   factory_loadConfigFromFile net p f = factory_loadDefaultConfig f"
  by (auto simp: factory_loadConfigFromFile_def load_fails_def split: fetched.splits)

lemma mapping_file_failure:
  "load_fails (net p) \<or> net p = Parsed Malformed \<Longrightarrow>
   \<exists>e. mapping_loadConfigFromFile net p s = Inl e"
  by (auto simp: mapping_loadConfigFromFile_def load_fails_def split: fetched.splits)

text \<open>
  Claim C3, as amended. For every path whose fetch or parse fails (or whose content has
  not the shape the loader reads), neither \<^verbatim>\<open>initialize\<close> throws.
  \<^verbatim>\<open>SoundFactory.initialize\<close> returns \<^verbatim>\<open>true\<close> and leaves the factory initialized with
  the default implementations, exactly as \<^verbatim>\<open>initialize()\<close> without a path does.
  \<^verbatim>\<open>SoundMappingSystem.initialize\<close> returns \<^verbatim>\<open>false\<close> and leaves the mapping system as it
  was: not marked initialized, and without the default mappings.
\<close>

theorem C3_initialize_on_failure:
  "(load_fails (fnet p) \<or> fnet p = Parsed MalformedFile \<longrightarrow>
      factory_initialize fnet (ConfigPath p) f =
        (True, (factory_loadDefaultConfig f)\<lparr>factory_isInitialized := True\<rparr>) \<and>
      factory_initialize fnet (ConfigPath p) f = factory_initialize fnet NoConfig f) \<and>
   (load_fails (mnet p) \<or> mnet p = Parsed Malformed \<longrightarrow>
      mapping_initialize mnet (ConfigPath p) s = (False, s))"
proof (intro conjI impI)
  assume a: "load_fails (fnet p) \<or> fnet p = Parsed MalformedFile"
  show "factory_initialize fnet (ConfigPath p) f =
        (True, (factory_loadDefaultConfig f)\<lparr>factory_isInitialized := True\<rparr>)"
    by (simp add: factory_initialize_def factory_file_failure [of fnet p, OF a])
  show "factory_initialize fnet (ConfigPath p) f = factory_initialize fnet NoConfig f"
    by (simp add: factory_initialize_def factory_file_failure [of fnet p, OF a])
next
  assume "load_fails (mnet p) \<or> mnet p = Parsed Malformed"
  from mapping_file_failure [of mnet p, OF this] obtain e where "mapping_loadConfigFromFile mnet p s = Inl e"
    by blast
  then show "mapping_initialize mnet (ConfigPath p) s = (False, s)"
    by (simp add: mapping_initialize_def)
qed

lemma default_factory_click:
  "implementations (factory_loadDefaultConfig f) ''click_sound'' =
     Some (web_audio ''simple_tone''
         [(''frequency'', JNum 800), (''duration'', JNum (5 / 100)),
          (''waveType'', JStr ''sine''), (''volume'', JNum (3 / 10))])"
  by (simp add: factory_loadDefaultConfig_def factory_loadConfig_def default_implementations_def)

lemma default_mapping_click:
  "mappings (mapping_loadDefaultConfig s) ''button_click'' = Some ''click_sound''"
  by (simp add: mapping_loadDefaultConfig_def loadConfig_def default_mappings_def)

theorem C3_witness:
  "fst (factory_initialize no_files (ConfigPath ''./js/audio/config/sound-implementations.json'')
          new_SoundFactory) \<and>
   factory_isInitialized (snd (factory_initialize no_files
      (ConfigPath ''./js/audio/config/sound-implementations.json'') new_SoundFactory)) \<and>
   implementations (snd (factory_initialize no_files
      (ConfigPath ''./js/audio/config/sound-implementations.json'') new_SoundFactory)) ''click_sound''
     \<noteq> None \<and>
   mapping_initialize no_files (ConfigPath ''./js/audio/config/sound-mappings.json'')
       new_SoundMappingSystem
     = (False, new_SoundMappingSystem)"
  using C3_initialize_on_failure [where fnet = no_files and mnet = no_files
      and p = "''./js/audio/config/sound-implementations.json''"
      and f = new_SoundFactory and s = new_SoundMappingSystem]
    C3_initialize_on_failure [where fnet = no_files and mnet = no_files
      and p = "''./js/audio/config/sound-mappings.json''"
      and f = new_SoundFactory and s = new_SoundMappingSystem]
  by (simp add: load_fails_def no_files_def default_factory_click)

text \<open>
  A new mapping system whose file cannot be loaded stays uninitialized and has no mapping
  for \<^verbatim>\<open>button_click\<close>, which the default configuration maps to \<^verbatim>\<open>click_sound\<close>.
\<close>

theorem C3_counterexample:
  "fst (mapping_initialize no_files (ConfigPath ''./js/audio/config/sound-mappings.json'')
          new_SoundMappingSystem) = False \<and>
   mapping_isInitialized (snd (mapping_initialize no_files
      (ConfigPath ''./js/audio/config/sound-mappings.json'') new_SoundMappingSystem)) = False \<and>
   mappings (snd (mapping_initialize no_files
      (ConfigPath ''./js/audio/config/sound-mappings.json'') new_SoundMappingSystem)) ''button_click''
     = None \<and>
   mappings (snd (mapping_initialize no_files NoConfig new_SoundMappingSystem)) ''button_click''
     = Some ''click_sound''"
  by (simp add: mapping_initialize_def mapping_loadConfigFromFile_def no_files_def
        new_SoundMappingSystem_def default_mapping_click)

subsection \<open>Failures of the sound factory\<close>






lemma continued_done: "continued audio resumed (Some b, s) = (Some b, s)"
  by (simp add: continued_def)











subsection \<open>The cap on active sounds\<close>

lemma initialized_system_fields:
  "audioContext initialized_system = Some Running"
  "system_isInitialized initialized_system"
  "audioSettings initialized_system = default_settings"
  "activeSounds initialized_system = []"
  "maxConcurrentSounds initialized_system = 8"
  "sources initialized_system = []"
  "pending initialized_system = []"
  by (simp_all add: initialized_system_def)

lemma click_mapped:
  "getSoundForAction ''button_click'' no_data (soundMapping initialized_system)
     = Inr (Some ''click_sound'')"
  by (simp add: initialized_system_def mapping_initialize_def mapping_loadDefaultConfig_def
        loadConfig_def new_SoundMappingSystem_def default_mappings_def
        default_conditional_mappings_def getSoundForAction_def no_data_def
        money_increased_def money_decreased_def high_quality_def low_quality_def reading_def)

lemma click_generated:
  "generateSound audio ''click_sound'' (soundFactory initialized_system) =
     Inr (SimpleTone (Some (JObj [(''frequency'', JNum 800), (''duration'', JNum (5 / 100)),
          (''waveType'', JStr ''sine''), (''volume'', JNum (3 / 10))])))"
  by (simp add: initialized_system_def factory_initialize_def factory_loadDefaultConfig_def
        factory_loadConfig_def new_SoundFactory_def SoundFactory_def default_implementations_def
        generateSound_def generateWebAudio_def web_audio_def getCacheKey_def
        generateSimpleTone_def destructured_def on_context_def)

lemma click_category: "getSoundCategory ''click_sound'' = ''ui''"
  by (simp add: getSoundCategory_def)

lemma ui_volume: "getVolume (Some ''ui'') default_settings = ui_default"
  by (simp add: getVolume_def default_settings_def default_categories_def get_property_def
        literal_normal literal_7 product_8_7 clamp01_def Math_min_def Math_max_def ui_default_def)

lemma master_volume: "getVolume None default_settings = master_default"
  by (simp add: getVolume_def default_settings_def literal_normal clamp01_def Math_min_def
        Math_max_def master_default_def)

lemma default_volumes_play:
  "\<not> falsy master_default" "\<not> number_le ui_default (Finite 0)"
  by (simp_all add: falsy_def number_le_def master_default_def ui_default_def)

lemma dispatch_click:
  assumes "soundMapping s = soundMapping initialized_system"
    and "soundFactory s = soundFactory initialized_system"
    and "audioSettings s = default_settings"
    and "system_isInitialized s" and "audioContext s = Some Running"
  shows "handleAudioEvent audio ''button_click'' no_data s =
     (if length (activeSounds s) \<ge> maxConcurrentSounds s then s
      else s\<lparr>sources := sources s @ [tone 800 (5 / 100) ''sine'' (3 / 10)],
             pending := pending s @ [AwaitGenerate ''click_sound'' ui_default (Inr (length (sources s)))]\<rparr>)"
  using assms
  by (simp add: handleAudioEvent_def playSound_def playSound_generate_def click_mapped
        click_generated click_category ui_volume master_volume default_volumes_play tone_def)

lemma continue_tracks:
  assumes "pending s = AwaitGenerate soundName (Finite r) (Inr source) # ks"
    and "audioContext s = Some c"
  shows "occur audio s (Continue resumed) =
     s\<lparr>pending := ks, gains := (gains s)(source \<mapsto> Finite r),
       activeSounds := set_add source (activeSounds s)\<rparr>"
  using assms by (simp add: trackActiveSound_def applyVolumeToSource_def)

lemma replicate_snoc: "replicate (Suc n) x = replicate n x @ [x]"
  by (simp add: replicate_append_same)

lemma burst_dispatches:
  "foldl (occur audio) initialized_system (replicate n (Dispatch ''button_click'' no_data)) =
     initialized_system\<lparr>sources := replicate n (tone 800 (5 / 100) ''sine'' (3 / 10)),
        pending := map (\<lambda>i. AwaitGenerate ''click_sound'' ui_default (Inr i)) [0..<n]\<rparr>"
proof (induction n)
  case 0
  then show ?case by (simp add: initialized_system_def)
next
  case (Suc n)
  show ?case
    unfolding replicate_snoc foldl_append Suc.IH
    by (simp add: dispatch_click initialized_system_fields)
qed

lemma burst_continues:
  "k \<le> n \<Longrightarrow>
   foldl (occur audio)
     (s\<lparr>pending := map (\<lambda>i. AwaitGenerate ''click_sound'' (Finite r) (Inr i)) [0..<n],
        activeSounds := [], audioContext := Some Running\<rparr>)
     (replicate k (Continue resumed)) =
   s\<lparr>pending := map (\<lambda>i. AwaitGenerate ''click_sound'' (Finite r) (Inr i)) [k..<n],
     activeSounds := [0..<k],
     audioContext := Some Running,
     gains := (\<lambda>i. if i < k then Some (Finite r) else gains s i)\<rparr>"
proof (induction k)
  case 0
  then show ?case by simp
next
  case (Suc k)
  then have k: "k < n" by simp
  then have up: "[k..<n] = k # [Suc k..<n]" by (simp add: upt_conv_Cons)
  have "k \<le> n" using k by simp
  note IH = Suc.IH [OF this]
  show ?case
    unfolding replicate_snoc foldl_append IH
    by (auto simp: up trackActiveSound_def applyVolumeToSource_def set_add_def fun_eq_iff)
qed

lemma burst_tracks_all:
  "activeSounds (run audio (burst n) initialized_system) = [0..<n]"
proof -
  let ?s = "initialized_system\<lparr>sources := replicate n (tone 800 (5 / 100) ''sine'' (3 / 10))\<rparr>"
  have "foldl (occur audio) initialized_system (replicate n (Dispatch ''button_click'' no_data)) =
      ?s\<lparr>pending := map (\<lambda>i. AwaitGenerate ''click_sound'' ui_default (Inr i)) [0..<n],
         activeSounds := [], audioContext := Some Running\<rparr>"
    unfolding burst_dispatches by (simp add: initialized_system_def)
  then show ?thesis
    unfolding run_def burst_def foldl_append ui_default_def
    using burst_continues [where k = n and n = n and audio = audio and s = ?s
        and r = "5044031582654955 / 9007199254740992" and resumed = True] by simp
qed

text \<open>
  Claim C1 fails on the code. Each of nine events dispatched in a row passes the check
  \<^verbatim>\<open>activeSounds.size >= maxConcurrentSounds\<close>, because a node is added to the set only
  after the \<^verbatim>\<open>await\<close> of \<^verbatim>\<open>generateSound\<close>; when the nine calls continue, nine nodes are
  active, one more than the cap of 8.
\<close>

theorem C1_burst_exceeds_cap:
  "length (activeSounds (run no_audio (burst 9) initialized_system)) = 9 \<and>
   maxConcurrentSounds initialized_system = 8 \<and>
   activeSounds initialized_system = []"
  by (simp add: burst_tracks_all initialized_system_fields)

lemma length_set_add: "length (set_add x xs) \<le> Suc (length xs)"
  by (simp add: set_add_def)

lemma length_set_delete: "length (set_delete x xs) \<le> length xs"
  by (simp add: set_delete_def)

lemma playSound_generate_shape:
  "pending s = [] \<Longrightarrow>
   (\<exists>b. playSound_generate audio n s = (b, s)) \<or>
   (\<exists>v r. playSound_generate audio n s = (None, s\<lparr>pending := [AwaitGenerate n v (Inl r)]\<rparr>)) \<or>
   (\<exists>v src. playSound_generate audio n s =
       (None, s\<lparr>sources := sources s @ [src], pending := [AwaitGenerate n v (Inr (length (sources s)))]\<rparr>))"
  by (auto simp: playSound_generate_def Let_def split: sum.splits)

lemma continue_generate_kept:
  assumes "length (activeSounds s) < maxConcurrentSounds s"
  shows "cap_kept (occur audio (s\<lparr>pending := [AwaitGenerate n v r]\<rparr>) (Continue resumed))"
proof (cases r)
  case (Inl e)
  with assms show ?thesis by (simp add: cap_kept_def)
next
  case (Inr src)
  with assms length_set_add [of src "activeSounds s"] show ?thesis
    by (auto simp: cap_kept_def trackActiveSound_def applyVolumeToSource_def split: number.split)
qed

lemma continue_noop: "pending s = [] \<Longrightarrow> occur audio s (Continue resumed) = s"
  by simp

lemma generate_then_continue:
  assumes "pending s = []" and "length (activeSounds s) < maxConcurrentSounds s"
  shows "cap_kept (occur audio (snd (playSound_generate audio n s)) (Continue resumed))"
proof -
  from playSound_generate_shape [OF assms(1), of audio n]
  consider b where "playSound_generate audio n s = (b, s)"
    | v r where "playSound_generate audio n s = (None, s\<lparr>pending := [AwaitGenerate n v (Inl r)]\<rparr>)"
    | v src where "playSound_generate audio n s =
       (None, s\<lparr>sources := sources s @ [src], pending := [AwaitGenerate n v (Inr (length (sources s)))]\<rparr>)"
    by (elim disjE exE) blast+
  then show ?thesis
  proof cases
    case 1
    with assms show ?thesis by (simp add: cap_kept_def)
  next
    case 2
    with continue_generate_kept [OF assms(2), of audio n v "Inl r" resumed] show ?thesis by simp
  next
    case 3
    have "length (activeSounds (s\<lparr>sources := sources s @ [src]\<rparr>))
            < maxConcurrentSounds (s\<lparr>sources := sources s @ [src]\<rparr>)"
      using assms(2) by simp
    from continue_generate_kept [OF this, of audio n v "Inr (length (sources s))" resumed] 3
    show ?thesis by simp
  qed
qed

lemma handleAudioEvent_shape:
  "handleAudioEvent audio eventType data s = s \<or>
   (\<exists>n. handleAudioEvent audio eventType data s = snd (playSound audio n s) \<and>
        length (activeSounds s) < maxConcurrentSounds s)"
  by (auto simp: handleAudioEvent_def not_le split: option.split sum.split)

lemma handled_alone_kept:
  assumes "cap_kept s"
  shows "cap_kept (run audio (handled_alone resumed eventType data) s)"
proof -
  from assms have p: "pending s = []" and le: "length (activeSounds s) \<le> maxConcurrentSounds s"
    by (simp_all add: cap_kept_def)
  let ?h = "handleAudioEvent audio eventType data s"
  have r: "run audio (handled_alone resumed eventType data) s
             = occur audio (occur audio ?h (Continue resumed)) (Continue resumed)"
    by (simp add: run_def handled_alone_def)
  from handleAudioEvent_shape [of audio eventType data s]
  consider "?h = s"
    | n where "?h = snd (playSound audio n s)" "length (activeSounds s) < maxConcurrentSounds s"
    by (elim disjE exE conjE) blast+
  then show ?thesis
  proof cases
    case 1
    with assms p show ?thesis unfolding r by simp
  next
    case 2
    have "playSound audio n s = (Some False, s) \<or>
        playSound audio n s = (None, s\<lparr>pending := [AwaitUnlock n]\<rparr>) \<and> audioContext s = Some Suspended \<or>
        playSound audio n s = playSound_generate audio n s"
      using p by (simp add: playSound_def)
    then consider "playSound audio n s = (Some False, s)"
      | "playSound audio n s = (None, s\<lparr>pending := [AwaitUnlock n]\<rparr>)" "audioContext s = Some Suspended"
      | "playSound audio n s = playSound_generate audio n s"
      by (elim disjE conjE) blast+
    then show ?thesis
    proof cases
      case 1
      with 2 assms p show ?thesis unfolding r by simp
    next
      case u: 2
      show ?thesis
      proof (cases resumed)
        case False
        with u 2 assms p show ?thesis unfolding r by (simp add: cap_kept_def)
      next
        case True
        let ?s2 = "s\<lparr>pending := [], audioContext := Some Running\<rparr>"
        have "occur audio ?h (Continue resumed) = snd (playSound_generate audio n ?s2)"
          using u 2 True by simp
        moreover have "cap_kept (occur audio (snd (playSound_generate audio n ?s2)) (Continue resumed))"
          using 2(2) by (intro generate_then_continue) simp_all
        ultimately show ?thesis unfolding r by simp
      qed
    next
      case 3
      have k: "cap_kept (occur audio ?h (Continue resumed))"
        using generate_then_continue [OF p 2(2), of audio n resumed] 2 3 by simp
      then have "pending (occur audio ?h (Continue resumed)) = []" by (simp add: cap_kept_def)
      from continue_noop [OF this] k show ?thesis unfolding r by simp
    qed
  qed
qed

text \<open>
  The \<^verbatim>\<open>onended\<close> handler and the timeout callback both leave the node outside the
  active set, whenever they run.
\<close>

lemma onended_evicts: "source \<notin> set (activeSounds (onended source s))"
  by (simp add: onended_def set_delete_def)

lemma timeout_evicts: "source \<notin> set (activeSounds (trackActiveSound_timeout source s))"
  by (simp add: trackActiveSound_timeout_def set_delete_def)

lemma ended_kept: "cap_kept s \<Longrightarrow> cap_kept (occur audio s (Ended source))"
  using length_set_delete [of source "activeSounds s"]
  by (simp add: cap_kept_def onended_def)

lemma timeout_kept: "cap_kept s \<Longrightarrow> cap_kept (occur audio s (Timeout source))"
  using length_set_delete [of source "activeSounds s"]
  by (simp add: cap_kept_def trackActiveSound_timeout_def)

lemma occur_max: "maxConcurrentSounds (occur audio s x) = maxConcurrentSounds s"
proof (cases x)
  case (Dispatch e d)
  then show ?thesis
    by (simp add: handleAudioEvent_def playSound_def playSound_generate_def Let_def
          split: option.split sum.split)
next
  case (Continue r)
  show ?thesis
  proof (cases "pending s")
    case Nil
    with Continue show ?thesis by simp
  next
    case (Cons k ks)
    show ?thesis
    proof (cases k)
      case (AwaitUnlock n)
      with Cons Continue show ?thesis
        by (simp add: playSound_generate_def Let_def split: sum.split)
    next
      case (AwaitGenerate n v res)
      with Cons Continue show ?thesis
        by (cases res) (simp_all add: trackActiveSound_def applyVolumeToSource_def split: number.split)
    qed
  qed
qed (simp_all add: onended_def trackActiveSound_timeout_def)

lemma run_append: "run audio (xs @ ys) s = run audio ys (run audio xs s)"
  by (simp add: run_def)

lemma run_max: "maxConcurrentSounds (run audio xs s) = maxConcurrentSounds s"
  unfolding run_def by (induction xs arbitrary: s) (simp_all add: occur_max)

lemma turn_kept: "cap_kept s \<Longrightarrow> cap_kept (run audio (turn_occurrences t) s)"
proof (cases t)
  case (Handle r e d)
  assume "cap_kept s"
  then show ?thesis unfolding Handle by (simp add: handled_alone_kept)
next
  case (End i)
  assume "cap_kept s"
  then show ?thesis unfolding End using ended_kept [of s audio i] by (simp add: run_def)
next
  case (Expire i)
  assume "cap_kept s"
  then show ?thesis unfolding Expire using timeout_kept [of s audio i] by (simp add: run_def)
qed

lemma turns_kept: "cap_kept s \<Longrightarrow> cap_kept (run audio (concat (map turn_occurrences turns)) s)"
proof (induction turns arbitrary: s)
  case Nil
  then show ?case by (simp add: run_def)
next
  case (Cons t turns)
  then show ?case by (simp add: run_append turn_kept)
qed

text \<open>
  When every event is handled to completion before the next thing happens, the cap holds.
\<close>

lemma cap_kept_in_turns:
  "length (activeSounds (run audio (concat (map turn_occurrences turns)) initialized_system)) \<le> 8"
proof -
  have "cap_kept initialized_system" by (simp add: cap_kept_def initialized_system_def)
  from turns_kept [OF this, of audio turns] show ?thesis
    by (simp add: cap_kept_def run_max initialized_system_fields)
qed

end
